theory Spec2Isabelle
  imports Complex_Main "HOL-Library.Word"
begin

section \<open>Real-time feed ingestion and schedule merge of cleanride\<close>

text \<open>
  A shallow embedding of \<^verbatim>\<open>cleanride_next/src/lib/mtaApi.js\<close> (feed router, fetcher,
  decoder boundary, arrival extraction, synthetic arrival generator) and of the
  combine/sort/filter block of \<^verbatim>\<open>cleanride_next/src/app/api/station/[stationId]/route.js\<close>.

  Conventions of the embedding:
  \<^item> a JavaScript \<^verbatim>\<open>Date\<close> and the ISO-8601 string \<^verbatim>\<open>toISOString()\<close> makes of it are the
    integer number of milliseconds since the epoch (the round trip through the string is
    the identity on valid dates);
  \<^item> a thrown exception (a rejected promise) is the \<open>Inl\<close> branch of a sum, a
    \<^verbatim>\<open>try { } catch { }\<close> is the case distinction on it;
  \<^item> \<^verbatim>\<open>undefined\<close>/\<^verbatim>\<open>null\<close> are \<open>None\<close>;
  \<^item> module-level mutable state (\<^verbatim>\<open>apiCache\<close>), the clock and the random number generator
    are threaded explicitly.
\<close>

subsection \<open>Feed registry and line colours\<close>

record FeedSource =
  lines :: "string list"
  url :: string

definition MTA_API_BASE_URL :: string where
  "MTA_API_BASE_URL = ''https://api-endpoint.mta.info/Dataservice/mtagtfsfeeds/nyct%2F''"

text \<open>The object literal \<^verbatim>\<open>MTA_FEEDS\<close>, in insertion order (the order of \<^verbatim>\<open>Object.keys\<close>
  and \<^verbatim>\<open>Object.entries\<close>).\<close>

definition MTA_FEEDS :: "(string \<times> FeedSource) list" where
  "MTA_FEEDS =
    [(''IRT'', \<lparr>lines = [''1'', ''2'', ''3'', ''4'', ''5'', ''6'', ''7'', ''S'', ''GS''], url = ''gtfs''\<rparr>),
     (''ACE'', \<lparr>lines = [''A'', ''C'', ''E'', ''H''], url = ''gtfs-ace''\<rparr>),
     (''NQRW'', \<lparr>lines = [''N'', ''Q'', ''R'', ''W''], url = ''gtfs-nqrw''\<rparr>),
     (''BDFM'', \<lparr>lines = [''B'', ''D'', ''F'', ''M'', ''FS''], url = ''gtfs-bdfm''\<rparr>),
     (''L'', \<lparr>lines = [''L''], url = ''gtfs-l''\<rparr>),
     (''G'', \<lparr>lines = [''G''], url = ''gtfs-g''\<rparr>),
     (''JZ'', \<lparr>lines = [''J'', ''Z''], url = ''gtfs-jz''\<rparr>),
     (''SIR'', \<lparr>lines = [''SI'', ''SIR''], url = ''gtfs-si''\<rparr>)]"

definition Object_keys :: "(string \<times> 'a) list \<Rightarrow> string list" where
  "Object_keys obj = map fst obj"

text \<open>The table \<^verbatim>\<open>lineColors\<close> (the same table is repeated in \<^verbatim>\<open>getLineColor\<close> of the
  route). Keys are line codes; property names inherited from \<^verbatim>\<open>Object.prototype\<close> are not
  line codes and are not looked up here.\<close>

definition lineColors :: "(string \<times> string) list" where
  "lineColors =
    [(''1'', ''#EE352E''), (''2'', ''#EE352E''), (''3'', ''#EE352E''),
     (''4'', ''#00933C''), (''5'', ''#00933C''), (''6'', ''#00933C''),
     (''7'', ''#B933AD''),
     (''A'', ''#2850AD''), (''C'', ''#2850AD''), (''E'', ''#2850AD''), (''H'', ''#2850AD''),
     (''B'', ''#FF6319''), (''D'', ''#FF6319''), (''F'', ''#FF6319''), (''M'', ''#FF6319''),
     (''G'', ''#6CBE45''),
     (''J'', ''#996633''), (''Z'', ''#996633''),
     (''L'', ''#A7A9AC''),
     (''N'', ''#FCCC0A''), (''Q'', ''#FCCC0A''), (''R'', ''#FCCC0A''), (''W'', ''#FCCC0A''),
     (''S'', ''#808183''), (''GS'', ''#808183''),
     (''SI'', ''#2850AD'')]"

text \<open>\<^verbatim>\<open>lineColors[line] || '#808183'\<close>\<close>

definition getLineColor :: "string \<Rightarrow> string" where
  "getLineColor line = (case map_of lineColors line of Some c \<Rightarrow> c | None \<Rightarrow> ''#808183'')"

subsection \<open>Feed router\<close>

text \<open>\<^verbatim>\<open>Set.prototype.add\<close> on a set kept in insertion order (the order \<^verbatim>\<open>Array.from\<close>
  reads it back in).\<close>

definition Set_add :: "'a \<Rightarrow> 'a list \<Rightarrow> 'a list" where
  "Set_add x s = (if x \<in> set s then s else s @ [x])"

text \<open>The inner \<^verbatim>\<open>for (const [feedId, feed] of Object.entries(MTA_FEEDS))\<close> for one line.\<close>

fun addFeedsOfLine :: "string \<Rightarrow> (string \<times> FeedSource) list \<Rightarrow> string list \<Rightarrow> string list" where
  "addFeedsOfLine line [] feedIds = feedIds"
| "addFeedsOfLine line ((feedId, feed) # rest) feedIds =
     addFeedsOfLine line rest (if line \<in> set (lines feed) then Set_add feedId feedIds else feedIds)"

text \<open>\<^verbatim>\<open>stationLines.forEach(line => ...)\<close>\<close>

fun collectFeeds :: "string list \<Rightarrow> string list \<Rightarrow> string list" where
  "collectFeeds [] feedIds = feedIds"
| "collectFeeds (line # rest) feedIds = collectFeeds rest (addFeedsOfLine line MTA_FEEDS feedIds)"

text \<open>\<^verbatim>\<open>getRelevantFeeds(stationLines)\<close>; \<open>None\<close> is a missing \<^verbatim>\<open>lines\<close> field.\<close>

definition getRelevantFeeds :: "string list option \<Rightarrow> string list" where
  "getRelevantFeeds stationLines =
     (case stationLines of
        None \<Rightarrow> Object_keys MTA_FEEDS
      | Some ls \<Rightarrow>
          if length ls = 0 then Object_keys MTA_FEEDS
          else let feedIds = collectFeeds ls []
               in if length feedIds > 0 then feedIds else Object_keys MTA_FEEDS)"

subsection \<open>Strings\<close>

text \<open>\<^verbatim>\<open>String.prototype.includes\<close>, \<^verbatim>\<open>endsWith\<close> and \<^verbatim>\<open>split\<close> (with a string separator).\<close>

fun String_includes :: "string \<Rightarrow> string \<Rightarrow> bool" where
  "String_includes sub [] = (sub = [])"
| "String_includes sub (c # cs) = (take (length sub) (c # cs) = sub \<or> String_includes sub cs)"

definition String_endsWith :: "string \<Rightarrow> string \<Rightarrow> bool" where
  "String_endsWith s suffix =
     (length suffix \<le> length s \<and> drop (length s - length suffix) s = suffix)"

text \<open>Scanning left to right: \<open>piece\<close> is the part read since the last separator.\<close>

function splitFrom :: "string \<Rightarrow> string \<Rightarrow> string \<Rightarrow> string list" where
  "splitFrom sep piece [] = [piece]"
| "splitFrom sep piece (c # cs) =
     (if sep \<noteq> [] \<and> take (length sep) (c # cs) = sep
      then piece # splitFrom sep [] (drop (length sep) (c # cs))
      else splitFrom sep (piece @ [c]) cs)"
  by pat_completeness auto
termination
  by (relation "measure (\<lambda>(sep, piece, s). length s)") auto

definition String_split :: "string \<Rightarrow> string \<Rightarrow> string list" where
  "String_split s sep = (if sep = [] then map (\<lambda>c. [c]) s else splitFrom sep [] s)"

text \<open>The decimal form an integer takes in a template literal.\<close>

definition digitChar :: "nat \<Rightarrow> char" where
  "digitChar d = ''0123456789'' ! d"

function string_of_nat :: "nat \<Rightarrow> string" where
  "string_of_nat n =
     (if n < 10 then [digitChar n]
      else string_of_nat (n div 10) @ [digitChar (n mod 10)])"
  by pat_completeness auto
termination
  by (relation "measure id") auto

definition string_of_int :: "int \<Rightarrow> string" where
  "string_of_int i = (if i < 0 then CHR ''-'' # string_of_nat (nat (- i)) else string_of_nat (nat i))"

subsection \<open>Decoded feed (the shape \<^verbatim>\<open>getTrainArrivals\<close> reads)\<close>

datatype error = RangeError | TransportError | DecodeError | DatabaseError

text \<open>
  A 64-bit time of the feed arrives either as a number or as a \<^verbatim>\<open>Long\<close> object with a
  signed 32-bit \<^verbatim>\<open>low\<close> and a \<^verbatim>\<open>high\<close> word; the code reads \<^verbatim>\<open>time.low\<close> first.
\<close>

datatype js_time = TimeNumber int | TimeLong (low: int) (high: int)

record StopTimeEvent =
  time :: "js_time option"
  event_delay :: "int option"

record StopTimeUpdate =
  stop_id :: string
  arrival :: "StopTimeEvent option"

record NyctTripDescriptor =
  train_id :: "string option"
  is_assigned :: "bool option"

record TripDescriptor =
  trip_id :: string
  route_id :: string
  extensions :: "(string \<times> NyctTripDescriptor) list option"

record TripUpdate =
  trip :: "TripDescriptor option"
  stop_time_update :: "StopTimeUpdate list option"

record FeedEntity =
  trip_update :: "TripUpdate option"

record FeedMessage =
  header_timestamp :: real
  entity :: "FeedEntity list"

subsection \<open>Output records\<close>

datatype Direction = NORTH | SOUTH

text \<open>
  The arrival objects of \<^verbatim>\<open>mtaApi.js\<close> and of the route, as one record: a property an
  object literal does not set is \<open>None\<close>. (\<open>arrival_id\<close> is the property \<^verbatim>\<open>id\<close>.)
\<close>

record Arrival =
  arrival_id :: string
  line :: string
  direction :: "Direction option"
  destination :: string
  arrivalTime :: int
  delay :: int
  isRealtime :: bool
  isAssigned :: "bool option"
  color :: string
  trainId :: "string option"
  currentRating :: "real option"

text \<open>A document of \<^verbatim>\<open>gtfs_processed_stations\<close> (\<open>station_id\<close> is its \<^verbatim>\<open>id\<close>).\<close>

record Station =
  station_id :: string
  name :: string
  station_lines :: "string list option"

record StationInfo =
  info_id :: string
  info_name :: string
  info_lines :: "string list"

record TrainArrivals =
  arrivals :: "Arrival list"
  station :: "StationInfo option"

subsection \<open>Environment and state\<close>

text \<open>
  \<^verbatim>\<open>Math.random()\<close> returns a number \<open>r\<close> with \<open>0 \<le> r < 1\<close>. The products \<open>r * n\<close> and
  their \<^verbatim>\<open>Math.floor\<close> are taken in exact arithmetic here. In the source the product is
  rounded to a double; for a factor \<open>n\<close> that is a small whole number, as all factors of the
  generator are, the rounded product of a double below 1 is still below \<open>n\<close>, so the floors
  range over the same integers \<open>0, ..., n - 1\<close>.
\<close>

typedef unit_interval = "{r :: real. 0 \<le> r \<and> r < 1}"
  morphisms random_value Abs_unit_interval
  by (rule exI [of _ 0]) simp

text \<open>
  What the module reads from outside: the flag \<^verbatim>\<open>USE_MOCK_DATA\<close>, the station lookup
  (\<^verbatim>\<open>connectToDatabase\<close> and \<^verbatim>\<open>findOne({ id: stationId })\<close>, which may throw), the HTTP GET
  (by request number and URL), the protobuf decoder of \<^verbatim>\<open>gtfs-realtime-bindings\<close>, the
  successive readings of the clock in milliseconds and the successive values of
  \<^verbatim>\<open>Math.random()\<close>.
\<close>

record env =
  USE_MOCK_DATA :: bool
  findStation :: "string \<Rightarrow> error + Station option"
  axios_get :: "nat \<Rightarrow> string \<Rightarrow> error + 8 word list"
  decode :: "8 word list \<Rightarrow> error + FeedMessage"
  clock :: "nat \<Rightarrow> int"
  rng :: "nat \<Rightarrow> unit_interval"

text \<open>
  What changes: \<^verbatim>\<open>apiCache.data\<close> and \<^verbatim>\<open>apiCache.timestamp\<close>, how often the clock and the
  random number generator have been read, and the URLs requested so far.
\<close>

record world =
  apiCache_data :: "string \<rightharpoonup> FeedMessage"
  apiCache_timestamp :: "string \<rightharpoonup> int"
  ticks :: nat
  draws :: nat
  requests :: "string list"

text \<open>The state when the module has been loaded: \<^verbatim>\<open>apiCache = { data: {}, timestamp: {} }\<close>,
  nothing read and nothing requested yet.\<close>

definition initialWorld :: world where
  "initialWorld =
     \<lparr>apiCache_data = Map.empty, apiCache_timestamp = Map.empty,
      ticks = 0, draws = 0, requests = []\<rparr>"

definition Date_now :: "env \<Rightarrow> world \<Rightarrow> int \<times> world" where
  "Date_now e w = (clock e (ticks w), w\<lparr>ticks := Suc (ticks w)\<rparr>)"

definition Math_random :: "env \<Rightarrow> world \<Rightarrow> real \<times> world" where
  "Math_random e w = (random_value (rng e (draws w)), w\<lparr>draws := Suc (draws w)\<rparr>)"

text \<open>\<^verbatim>\<open>{ header: { timestamp: now / 1000 }, entity: [] }\<close>\<close>

definition emptyFeed :: "int \<Rightarrow> FeedMessage" where
  "emptyFeed now = \<lparr>header_timestamp = real_of_int now / 1000, entity = []\<rparr>"

subsection \<open>Feed decoder and feed fetcher\<close>

definition parseGtfsRealtimeFeed :: "env \<Rightarrow> 8 word list \<Rightarrow> world \<Rightarrow> (error + FeedMessage) \<times> world" where
  "parseGtfsRealtimeFeed e buffer w =
     (case decode e buffer of
        Inr feed \<Rightarrow> (Inr feed, w)
      | Inl err \<Rightarrow> (let (now, w') = Date_now e w in (Inr (emptyFeed now), w')))"

text \<open>\<^verbatim>\<open>apiCache.data[feedId] && now - apiCache.timestamp[feedId] < 30000\<close>\<close>

definition cachedFeed :: "world \<Rightarrow> string \<Rightarrow> int \<Rightarrow> FeedMessage option" where
  "cachedFeed w feedId now =
     (case apiCache_data w feedId of
        None \<Rightarrow> None
      | Some feed \<Rightarrow>
          (case apiCache_timestamp w feedId of
             None \<Rightarrow> None
           | Some t \<Rightarrow> if now - t < 30000 then Some feed else None))"

text \<open>\<^verbatim>\<open>MTA_FEEDS[feedId]?.url || 'gtfs'\<close>\<close>

definition feedUrlOf :: "string \<Rightarrow> string" where
  "feedUrlOf feedId =
     (case map_of MTA_FEEDS feedId of
        None \<Rightarrow> ''gtfs''
      | Some feed \<Rightarrow> if url feed \<noteq> [] then url feed else ''gtfs'')"

definition fetchMtaFeed :: "env \<Rightarrow> string \<Rightarrow> world \<Rightarrow> (error + FeedMessage) \<times> world" where
  "fetchMtaFeed e feedId w0 =
     (let (now, w) = Date_now e w0 in
      case cachedFeed w feedId now of
        Some feed \<Rightarrow> (Inr feed, w)
      | None \<Rightarrow>
          if USE_MOCK_DATA e then (Inr (emptyFeed now), w)
          else
            (let feedUrl = feedUrlOf feedId;
                 u = MTA_API_BASE_URL @ feedUrl;
                 w1 = w\<lparr>requests := requests w @ [u]\<rparr>
             in case axios_get e (length (requests w)) u of
                  Inl err \<Rightarrow> (Inr (emptyFeed now), w1)
                | Inr response \<Rightarrow>
                    (case parseGtfsRealtimeFeed e response w1 of
                       (Inl err, w2) \<Rightarrow> (Inr (emptyFeed now), w2)
                     | (Inr feed, w2) \<Rightarrow>
                         (Inr feed,
                          w2\<lparr>apiCache_data := (apiCache_data w2)(feedId \<mapsto> feed),
                             apiCache_timestamp := (apiCache_timestamp w2)(feedId \<mapsto> now)\<rparr>))))"

text \<open>\<^verbatim>\<open>Promise.all(relevantFeeds.map(feedId => fetchMtaFeed(feedId)))\<close>, the fetches taken
  one after the other (the feed ids are distinct, so they share no cache entry). The source
  starts all fetches before any response arrives, so with several feeds its clock readings
  come in another order than here; the feeds returned and the cache entries' feeds are the
  same.\<close>

fun fetchAll :: "env \<Rightarrow> string list \<Rightarrow> world \<Rightarrow> (error + FeedMessage list) \<times> world" where
  "fetchAll e [] w = (Inr [], w)"
| "fetchAll e (feedId # rest) w =
     (case fetchMtaFeed e feedId w of
        (Inl err, w1) \<Rightarrow> (Inl err, w1)
      | (Inr feed, w1) \<Rightarrow>
          (case fetchAll e rest w1 of
             (Inl err, w2) \<Rightarrow> (Inl err, w2)
           | (Inr feeds, w2) \<Rightarrow> (Inr (feed # feeds), w2)))"

subsection \<open>Destination names\<close>

text \<open>\<^verbatim>\<open>getDestinationName\<close>: the table ends with the entry \<^verbatim>\<open>'DEFAULT': destination\<close>, and
  \<^verbatim>\<open>destinations[destination] || destinations['DEFAULT']\<close> falls back to it.\<close>

definition getDestinationName :: "string \<Rightarrow> string" where
  "getDestinationName dest =
     (let destinations =
        [(''TSQ'', ''Times Square''), (''GCT'', ''Grand Central''), (''14S'', ''14 St''),
         (''34S'', ''34 St''), (''SFC'', ''South Ferry''), (''WTC'', ''World Trade Center''),
         (''ATL'', ''Atlantic Av''), (''CIY'', ''Coney Island''), (''BBR'', ''Brighton Beach''),
         (''FHL'', ''Flatbush Av''), (''UST'', ''Utica Av''), (''NLT'', ''New Lots Av''),
         (''ENY'', ''East New York''),
         (''WPK'', ''Wakefield''), (''WOD'', ''Woodlawn''), (''PBP'', ''Pelham Bay Park''),
         (''ECD'', ''Eastchester''),
         (''FLS'', ''Flushing''), (''JAM'', ''Jamaica Center''), (''179'', ''179 St Jamaica''),
         (''Van Cortlandt Park'', ''Van Cortlandt Park''), (''South Ferry'', ''South Ferry''),
         (''Wakefield'', ''Wakefield''), (''Flatbush Av'', ''Flatbush Av''),
         (''Harlem'', ''Harlem''), (''New Lots Av'', ''New Lots Av''),
         (''DEFAULT'', dest)]
      in case map_of destinations dest of
           Some label \<Rightarrow> if label \<noteq> [] then label else dest
         | None \<Rightarrow> dest)"

text \<open>The candidate table of \<^verbatim>\<open>getRandomDestination\<close>.\<close>

definition lineDestinationsTable :: "(string \<times> string list) list" where
  "lineDestinationsTable =
    [(''1'', [''Van Cortlandt Park'', ''South Ferry'']),
     (''2'', [''Wakefield'', ''Flatbush Av'']),
     (''3'', [''Harlem'', ''New Lots Av'']),
     (''4'', [''WOD'', ''UST'', ''NLT'']),
     (''5'', [''ECD'', ''FHL'']),
     (''6'', [''PBP'', ''BBR'']),
     (''7'', [''FLS'', ''34S'']),
     (''A'', [''207'', ''FAR'', ''RPK'']),
     (''C'', [''168'', ''EUC'']),
     (''E'', [''JAM'', ''WTC'']),
     (''B'', [''BPK'', ''BBR'']),
     (''D'', [''NWD'', ''CIY'']),
     (''F'', [''179'', ''CIY'']),
     (''M'', [''71A'', ''MET'']),
     (''G'', [''CTQ'', ''CHA'']),
     (''J'', [''JAM'', ''BRS'']),
     (''Z'', [''JAM'', ''BRS'']),
     (''L'', [''CAN'', ''8AV'']),
     (''N'', [''AST'', ''CIY'']),
     (''Q'', [''96S'', ''CIY'']),
     (''R'', [''71A'', ''BAY'']),
     (''W'', [''AST'', ''WHS'']),
     (''S'', [''TSQ'', ''GCT'']),
     (''SI'', [''STG'', ''TOT''])]"

text \<open>\<^verbatim>\<open>lineDestinations[Math.floor(Math.random() * lineDestinations.length)]\<close>; the index is
  within the list because the random number is in the unit interval.\<close>

definition getRandomDestination :: "env \<Rightarrow> string \<Rightarrow> world \<Rightarrow> string \<times> world" where
  "getRandomDestination e l w =
     (let lineDestinations = (case map_of lineDestinationsTable l of Some ds \<Rightarrow> ds | None \<Rightarrow> [''UNK'']);
          (r, w') = Math_random e w
      in (lineDestinations ! nat \<lfloor>r * real (length lineDestinations)\<rfloor>, w'))"

subsection \<open>Synthetic arrival generator\<close>

text \<open>One pass of the body of \<^verbatim>\<open>for (let i = 0; i < numArrivals; i++)\<close>; the calls of
  \<^verbatim>\<open>Math.random()\<close> in the order the body makes them.\<close>

definition mockArrival :: "env \<Rightarrow> int \<Rightarrow> string \<Rightarrow> world \<Rightarrow> Arrival \<times> world" where
  "mockArrival e now l w0 =
     (let (r1, w1) = Math_random e w0;
          minutesFromNow = \<lfloor>r1 * 30\<rfloor> + 2;
          arrivalTime' = now + minutesFromNow * 60 * 1000;
          (r2, w2) = Math_random e w1;
          (delayMinutes, w3) =
            (if r2 < 3 / 10
             then (let (r3, w) = Math_random e w2 in (\<lfloor>r3 * 5\<rfloor> + 1, w))
             else (0, w2));
          (r4, w4) = Math_random e w3;
          tripId = l @ ''_'' @ string_of_int \<lfloor>r4 * 100000\<rfloor>;
          (dest, w5) = getRandomDestination e l w4;
          (r6, w6) = Math_random e w5;
          (r7, w7) = Math_random e w6
      in (\<lparr>arrival_id = tripId,
           line = l,
           direction = None,
           destination = getDestinationName dest,
           arrivalTime = arrivalTime',
           delay = delayMinutes * 60,
           isRealtime = True,
           isAssigned = Some (r6 > 2 / 10),
           color = getLineColor l,
           trainId = Some (''0 '' @ l @ string_of_int \<lfloor>r7 * 10000\<rfloor>),
           currentRating = None\<rparr>, w7))"

text \<open>The \<^verbatim>\<open>for\<close> loop, by the number of passes left.\<close>

fun mockArrivalsOfLine :: "env \<Rightarrow> int \<Rightarrow> string \<Rightarrow> nat \<Rightarrow> world \<Rightarrow> Arrival list \<times> world" where
  "mockArrivalsOfLine e now l 0 w = ([], w)"
| "mockArrivalsOfLine e now l (Suc n) w =
     (let (a, w1) = mockArrival e now l w;
          (rest, w2) = mockArrivalsOfLine e now l n w1
      in (a # rest, w2))"

text \<open>\<^verbatim>\<open>lines.forEach(line => ...)\<close>\<close>

fun mockArrivalsOfLines :: "env \<Rightarrow> int \<Rightarrow> string list \<Rightarrow> world \<Rightarrow> Arrival list \<times> world" where
  "mockArrivalsOfLines e now [] w = ([], w)"
| "mockArrivalsOfLines e now (l # rest) w =
     (let (r, w1) = Math_random e w;
          numArrivals = \<lfloor>r * 4\<rfloor> + 2;
          (first, w2) = mockArrivalsOfLine e now l (nat numArrivals) w1;
          (others, w3) = mockArrivalsOfLines e now rest w2
      in (first @ others, w3))"

text \<open>\<^verbatim>\<open>arrivals.sort((a, b) => new Date(a.arrivalTime) - new Date(b.arrivalTime))\<close>: the
  sort by arrival time, stable as \<^verbatim>\<open>Array.prototype.sort\<close> is since ECMAScript 2019 (entries
  with the same time keep their order).\<close>

definition sortByArrivalTime :: "Arrival list \<Rightarrow> Arrival list" where
  "sortByArrivalTime xs = sort_key arrivalTime xs"

definition generateMockArrivals :: "env \<Rightarrow> Station \<Rightarrow> world \<Rightarrow> Arrival list \<times> world" where
  "generateMockArrivals e st w0 =
     (let (now, w) = Date_now e w0;
          ls = (case station_lines st of Some x \<Rightarrow> x | None \<Rightarrow> [])
      in if length ls = 0 then ([], w)
         else (let (arrivals', w') = mockArrivalsOfLines e now ls w
               in (sortByArrivalTime arrivals', w')))"

subsection \<open>Arrival extraction\<close>

definition formatStopId :: "string \<Rightarrow> Direction \<Rightarrow> string" where
  "formatStopId stationId d = stationId @ (if d = NORTH then ''N'' else ''S'')"

text \<open>\<^verbatim>\<open>getNyctTripDescriptor\<close>\<close>

definition getNyctTripDescriptor :: "TripDescriptor \<Rightarrow> NyctTripDescriptor option" where
  "getNyctTripDescriptor t =
     (case extensions t of
        None \<Rightarrow> None
      | Some ext \<Rightarrow> map_of ext ''nyct_trip_descriptor'')"

text \<open>
  \<^verbatim>\<open>update.arrival?.time?.low || update.arrival?.time\<close> as the number the later comparison
  and multiplication see; \<open>None\<close> when the expression is falsy (\<^verbatim>\<open>undefined\<close> or the
  number 0). A \<^verbatim>\<open>Long\<close> whose low word is 0 is used as the object itself, which counts as
  true and converts to its full value.
\<close>

definition arrivalTimeOf :: "StopTimeUpdate \<Rightarrow> int option" where
  "arrivalTimeOf update =
     (case arrival update of
        None \<Rightarrow> None
      | Some ev \<Rightarrow>
          (case time ev of
             None \<Rightarrow> None
           | Some (TimeNumber n) \<Rightarrow> if n = 0 then None else Some n
           | Some (TimeLong lo hi) \<Rightarrow> if lo \<noteq> 0 then Some lo else Some (hi * 2 ^ 32)))"

text \<open>\<^verbatim>\<open>new Date(ms).toISOString()\<close> throws a \<^verbatim>\<open>RangeError\<close> outside the range of dates.\<close>

definition toISOString :: "int \<Rightarrow> error + int" where
  "toISOString ms = (if \<bar>ms\<bar> \<le> 8640000000000000 then Inr ms else Inl RangeError)"

definition destinationCode :: "TripDescriptor \<Rightarrow> NyctTripDescriptor option \<Rightarrow> string" where
  "destinationCode t nyctTrip =
     (if trip_id t \<noteq> [] \<and> String_includes ''..'' (trip_id t)
      then (let part = String_split (trip_id t) ''..'' ! 1
            in if part \<noteq> [] then part else ''Unknown'')
      else (case nyctTrip of
              None \<Rightarrow> ''Unknown''
            | Some n \<Rightarrow>
                (case train_id n of
                   None \<Rightarrow> ''Unknown''
                 | Some tid \<Rightarrow>
                     if tid = [] then ''Unknown''
                     else (let trainIdParts = String_split tid ''/''
                           in if length trainIdParts > 1 then trainIdParts ! 1 else ''Unknown''))))"

text \<open>The body of \<^verbatim>\<open>for (const update of tripUpdate.stop_time_update)\<close>: the arrivals it
  pushes (none or one), or the exception it throws.\<close>

definition processUpdate ::
    "string \<Rightarrow> int \<Rightarrow> TripDescriptor \<Rightarrow> NyctTripDescriptor option \<Rightarrow> StopTimeUpdate \<Rightarrow> error + Arrival list" where
  "processUpdate stationId now t nyctTrip update =
     (let northStopId = formatStopId stationId NORTH;
          southStopId = formatStopId stationId SOUTH
      in if stop_id update = northStopId \<or> stop_id update = southStopId
         then (case arrivalTimeOf update of
                 None \<Rightarrow> Inr []
               | Some arrivalTime' \<Rightarrow>
                   if arrivalTime' > now
                   then (let direction' = (if String_endsWith (stop_id update) ''N'' then NORTH else SOUTH);
                             routeId = route_id t;
                             destination' = destinationCode t nyctTrip
                         in case toISOString (arrivalTime' * 1000) of
                              Inl err \<Rightarrow> Inl err
                            | Inr isoString \<Rightarrow>
                                Inr [\<lparr>arrival_id = trip_id t,
                                      line = routeId,
                                      direction = Some direction',
                                      destination = getDestinationName destination',
                                      arrivalTime = isoString,
                                      delay = (case arrival update of
                                                 None \<Rightarrow> 0
                                               | Some ev \<Rightarrow> (case event_delay ev of None \<Rightarrow> 0 | Some d \<Rightarrow> d)),
                                      isRealtime = True,
                                      isAssigned = Some (case nyctTrip of
                                                           None \<Rightarrow> False
                                                         | Some n \<Rightarrow> (case is_assigned n of None \<Rightarrow> False | Some b \<Rightarrow> b)),
                                      color = getLineColor routeId,
                                      trainId = Some (case nyctTrip of
                                                        None \<Rightarrow> trip_id t
                                                      | Some n \<Rightarrow>
                                                          (case train_id n of
                                                             None \<Rightarrow> trip_id t
                                                           | Some tid \<Rightarrow> if tid \<noteq> [] then tid else trip_id t)),
                                      currentRating = None\<rparr>])
                   else Inr [])
         else Inr [])"

text \<open>A \<^verbatim>\<open>for ... of\<close> loop whose body pushes to \<^verbatim>\<open>arrivals\<close>: what all passes push, in
  order, unless a pass throws.\<close>

fun pushAll :: "('a \<Rightarrow> error + 'b list) \<Rightarrow> 'a list \<Rightarrow> error + 'b list" where
  "pushAll body [] = Inr []"
| "pushAll body (x # xs) =
     (case body x of
        Inl err \<Rightarrow> Inl err
      | Inr pushed \<Rightarrow>
          (case pushAll body xs of
             Inl err \<Rightarrow> Inl err
           | Inr later \<Rightarrow> Inr (pushed @ later)))"

text \<open>The body of \<^verbatim>\<open>for (const entity of feed.entity)\<close>.\<close>

definition processEntity :: "string \<Rightarrow> int \<Rightarrow> FeedEntity \<Rightarrow> error + Arrival list" where
  "processEntity stationId now ent =
     (case trip_update ent of
        None \<Rightarrow> Inr []
      | Some tripUpdate \<Rightarrow>
          (case stop_time_update tripUpdate of
             None \<Rightarrow> Inr []
           | Some updates \<Rightarrow>
               (case trip tripUpdate of
                  None \<Rightarrow> Inr []
                | Some t \<Rightarrow>
                    pushAll (processUpdate stationId now t (getNyctTripDescriptor t)) updates)))"

text \<open>\<^verbatim>\<open>for (const feed of feeds)\<close>: the arrival extractor.\<close>

definition extractArrivals :: "string \<Rightarrow> int \<Rightarrow> FeedMessage list \<Rightarrow> error + Arrival list" where
  "extractArrivals stationId now feeds =
     pushAll (\<lambda>feed. pushAll (processEntity stationId now) (entity feed)) feeds"

subsection \<open>\<^verbatim>\<open>getTrainArrivals\<close>\<close>

definition stationInfo :: "string \<Rightarrow> Station \<Rightarrow> StationInfo" where
  "stationInfo stationId st =
     \<lparr>info_id = stationId, info_name = name st,
      info_lines = (case station_lines st of Some ls \<Rightarrow> ls | None \<Rightarrow> [])\<rparr>"

text \<open>The outer \<^verbatim>\<open>catch\<close> returns \<^verbatim>\<open>{ arrivals: [] }\<close>.\<close>

definition caughtResult :: TrainArrivals where
  "caughtResult = \<lparr>arrivals = [], station = None\<rparr>"

definition getTrainArrivals :: "env \<Rightarrow> string \<Rightarrow> world \<Rightarrow> (error + TrainArrivals) \<times> world" where
  "getTrainArrivals e stationId w0 =
     (case findStation e stationId of
        Inl err \<Rightarrow> (Inr caughtResult, w0)
      | Inr None \<Rightarrow>
          (Inr \<lparr>arrivals = [],
                station = Some \<lparr>info_id = stationId, info_name = ''Unknown Station'', info_lines = []\<rparr>\<rparr>,
           w0)
      | Inr (Some st) \<Rightarrow>
          (let relevantFeeds = getRelevantFeeds (station_lines st) in
           if USE_MOCK_DATA e
           then (let (mockArrivals, w1) = generateMockArrivals e st w0
                 in (Inr \<lparr>arrivals = sortByArrivalTime mockArrivals,
                          station = Some (stationInfo stationId st)\<rparr>, w1))
           else (case fetchAll e relevantFeeds w0 of
                   (Inl err, w1) \<Rightarrow> (Inr caughtResult, w1)
                 | (Inr feeds, w1) \<Rightarrow>
                     (let (t, w2) = Date_now e w1;
                          now = t div 1000
                      in case extractArrivals stationId now feeds of
                           Inl err \<Rightarrow> (Inr caughtResult, w2)
                         | Inr found \<Rightarrow>
                             (let (arrivals', w3) =
                                    (if length found = 0 then generateMockArrivals e st w2
                                     else (found, w2))
                              in (Inr \<lparr>arrivals = sortByArrivalTime arrivals',
                                       station = Some (stationInfo stationId st)\<rparr>, w3))))))"

text \<open>
  The states of a running process: the state after loading, and the state any call of
  \<^verbatim>\<open>getTrainArrivals\<close> (the module's one export) or of \<^verbatim>\<open>fetchMtaFeed\<close> leaves behind.
\<close>

inductive reachable :: "env \<Rightarrow> world \<Rightarrow> bool" for e :: env where
  loaded: "reachable e initialWorld"
| fetched: "reachable e w \<Longrightarrow> reachable e (snd (fetchMtaFeed e feedId w))"
| served: "reachable e w \<Longrightarrow> reachable e (snd (getTrainArrivals e stationId w))"

subsection \<open>The route: real-time entries, combination with the schedule, sort and filter\<close>

text \<open>What the merge reads of an entry of \<^verbatim>\<open>getStationSchedule\<close>; \<open>arrival_timestamp\<close> is
  the date of its ISO string, \<open>sched_trip_id\<close> its \<^verbatim>\<open>trip_id\<close>.\<close>

record ScheduledDeparture =
  sched_trip_id :: string
  route_short_name :: string
  headsign :: string
  arrival_timestamp :: int
  route_color :: string

text \<open>Lines 108 to 123 of the route: the entry built from one arrival of
  \<^verbatim>\<open>getTrainArrivals\<close>, given the rating \<^verbatim>\<open>Train.findOne\<close> found for it (if any).\<close>

definition realtimeEntry :: "real option \<Rightarrow> Arrival \<Rightarrow> Arrival" where
  "realtimeEntry rating train =
     \<lparr>arrival_id = arrival_id train,
      line = line train,
      direction = None,
      destination = destination train,
      arrivalTime = arrivalTime train,
      delay = delay train,
      isRealtime = True,
      isAssigned = None,
      color = color train,
      trainId = Some (case trainId train of
                        None \<Rightarrow> arrival_id train
                      | Some tid \<Rightarrow> if tid \<noteq> [] then tid else arrival_id train),
      currentRating = Some (case rating of None \<Rightarrow> 5 | Some r \<Rightarrow> if r \<noteq> 0 then r else 5)\<rparr>"

text \<open>
  \<^verbatim>\<open>realtimeArrivals\<close> of the route: every arrival of \<^verbatim>\<open>getTrainArrivals\<close> turned into an entry,
  \<open>ratingOf\<close> being the \<^verbatim>\<open>currentRating\<close> that \<^verbatim>\<open>Train.findOne({ trainId: train.id })\<close> finds. When
  a lookup throws, \<^verbatim>\<open>Promise.all\<close> rejects and the \<^verbatim>\<open>catch\<close> leaves the list empty.
\<close>

definition realtimeArrivalsOf :: "(string \<Rightarrow> error + real option) \<Rightarrow> Arrival list \<Rightarrow> Arrival list" where
  "realtimeArrivalsOf ratingOf mtaArrivals =
     (case pushAll (\<lambda>train. case ratingOf (arrival_id train) of
                                Inl err \<Rightarrow> Inl err
                              | Inr rating \<Rightarrow> Inr [realtimeEntry rating train]) mtaArrivals of
        Inl err \<Rightarrow> []
      | Inr entries \<Rightarrow> entries)"

text \<open>\<^verbatim>\<open>realtimeArrivals.some(rt => rt.line === scheduled.route_short_name &&
  Math.abs(new Date(rt.arrivalTime) - new Date(scheduled.arrival_timestamp)) < 120000)\<close>\<close>

definition hasRealtime :: "Arrival list \<Rightarrow> ScheduledDeparture \<Rightarrow> bool" where
  "hasRealtime realtimeArrivals scheduled =
     list_ex (\<lambda>rt. line rt = route_short_name scheduled \<and>
                   \<bar>arrivalTime rt - arrival_timestamp scheduled\<bar> < 120000) realtimeArrivals"

text \<open>The entry pushed for a scheduled departure without a real-time equivalent.\<close>

definition scheduledEntry :: "ScheduledDeparture \<Rightarrow> Arrival" where
  "scheduledEntry scheduled =
     \<lparr>arrival_id = sched_trip_id scheduled,
      line = route_short_name scheduled,
      direction = None,
      destination = headsign scheduled,
      arrivalTime = arrival_timestamp scheduled,
      delay = 0,
      isRealtime = False,
      isAssigned = None,
      color = (if route_color scheduled \<noteq> [] then route_color scheduled
               else getLineColor (route_short_name scheduled)),
      trainId = None,
      currentRating = None\<rparr>"

text \<open>\<^verbatim>\<open>scheduledDepartures.forEach(scheduled => ...)\<close> pushing to \<^verbatim>\<open>combinedArrivals\<close>.\<close>

fun addScheduled :: "Arrival list \<Rightarrow> ScheduledDeparture list \<Rightarrow> Arrival list \<Rightarrow> Arrival list" where
  "addScheduled realtimeArrivals [] combinedArrivals = combinedArrivals"
| "addScheduled realtimeArrivals (scheduled # rest) combinedArrivals =
     addScheduled realtimeArrivals rest
       (if \<not> hasRealtime realtimeArrivals scheduled
        then combinedArrivals @ [scheduledEntry scheduled]
        else combinedArrivals)"

text \<open>Lines 132 to 153 of the route: \<^verbatim>\<open>combinedArrivals\<close> after the \<^verbatim>\<open>forEach\<close>.\<close>

definition combineArrivals :: "Arrival list \<Rightarrow> ScheduledDeparture list \<Rightarrow> Arrival list" where
  "combineArrivals realtimeArrivals scheduledDepartures =
     addScheduled realtimeArrivals scheduledDepartures realtimeArrivals"

text \<open>Lines 132 to 162 of the route: \<^verbatim>\<open>filteredArrivals\<close>, with \<open>now\<close> the date read at
  line 159.\<close>

definition mergeArrivals :: "Arrival list \<Rightarrow> ScheduledDeparture list \<Rightarrow> int \<Rightarrow> Arrival list" where
  "mergeArrivals realtimeArrivals scheduledDepartures now =
     filter (\<lambda>a. arrivalTime a > now)
       (sortByArrivalTime (combineArrivals realtimeArrivals scheduledDepartures))"

subsection \<open>Example inputs\<close>

text \<open>A feed with a northbound train at station 127 in 300 seconds, an entity without trip
  update, and a southbound train there in 100 seconds that also lists a time in the past.\<close>

definition exampleFeed :: FeedMessage where
  "exampleFeed =
     \<lparr>header_timestamp = 1700000000,
      entity =
        [\<lparr>trip_update = Some
            \<lparr>trip = Some \<lparr>trip_id = ''061200_1..N03R'', route_id = ''1'', extensions = None\<rparr>,
             stop_time_update = Some
               [\<lparr>stop_id = ''127N'',
                 arrival = Some \<lparr>time = Some (TimeNumber 1700000300), event_delay = Some 60\<rparr>\<rparr>,
                \<lparr>stop_id = ''126N'',
                 arrival = Some \<lparr>time = Some (TimeNumber 1700000420), event_delay = None\<rparr>\<rparr>]\<rparr>\<rparr>,
         \<lparr>trip_update = None\<rparr>,
         \<lparr>trip_update = Some
            \<lparr>trip = Some
               \<lparr>trip_id = ''061150_2'', route_id = ''2'',
                extensions = Some [(''nyct_trip_descriptor'',
                  \<lparr>train_id = Some ''02 1150 WPK/FHL'', is_assigned = Some True\<rparr>)]\<rparr>,
             stop_time_update = Some
               [\<lparr>stop_id = ''127S'',
                 arrival = Some \<lparr>time = Some (TimeLong 1700000100 0), event_delay = None\<rparr>\<rparr>,
                \<lparr>stop_id = ''127S'',
                 arrival = Some \<lparr>time = Some (TimeNumber 1699999999), event_delay = Some 30\<rparr>\<rparr>]\<rparr>\<rparr>]\<rparr>"

text \<open>The two arrivals the extractor makes of it for station 127.\<close>

definition northArrival :: Arrival where
  "northArrival =
     \<lparr>arrival_id = ''061200_1..N03R'', line = ''1'', direction = Some NORTH,
      destination = ''N03R'', arrivalTime = 1700000300000, delay = 60, isRealtime = True,
      isAssigned = Some False, color = ''#EE352E'', trainId = Some ''061200_1..N03R'',
      currentRating = None\<rparr>"

definition southArrival :: Arrival where
  "southArrival =
     \<lparr>arrival_id = ''061150_2'', line = ''2'', direction = Some SOUTH,
      destination = ''Flatbush Av'', arrivalTime = 1700000100000, delay = 0, isRealtime = True,
      isAssigned = Some True, color = ''#EE352E'', trainId = Some ''02 1150 WPK/FHL'',
      currentRating = None\<rparr>"

definition station127 :: Station where
  "station127 =
     \<lparr>station_id = ''127'', name = ''Times Sq-42 St'', station_lines = Some [''1'', ''2'', ''3'']\<rparr>"

text \<open>A live deployment whose upstream answers with \<open>exampleFeed\<close>.\<close>

definition liveEnv :: env where
  "liveEnv =
     \<lparr>USE_MOCK_DATA = False,
      findStation = (\<lambda>stationId. if stationId = ''127'' then Inr (Some station127) else Inr None),
      axios_get = (\<lambda>n u. Inr []),
      decode = (\<lambda>buffer. Inr exampleFeed),
      clock = (\<lambda>n. 1700000000500 + int n),
      rng = (\<lambda>n. Abs_unit_interval (1 / 2))\<rparr>"

text \<open>The same deployment with the upstream unreachable.\<close>

definition downEnv :: env where
  "downEnv = liveEnv\<lparr>axios_get := (\<lambda>n u. Inl TransportError)\<rparr>"

text \<open>An offline deployment (\<^verbatim>\<open>USE_MOCK_DATA=true\<close>) with an empty station collection and a
  decoder that rejects every payload.\<close>

definition offlineEnv :: env where
  "offlineEnv =
     \<lparr>USE_MOCK_DATA = True,
      findStation = (\<lambda>stationId. Inr None),
      axios_get = (\<lambda>n u. Inl TransportError),
      decode = (\<lambda>buffer. Inl DecodeError),
      clock = (\<lambda>n. 1700000000000 + int n),
      rng = (\<lambda>n. Abs_unit_interval (1 / 2))\<rparr>"

text \<open>An offline deployment in which every id is a station named ``Unknown Station''
  without lines.\<close>

definition unknownNamedEnv :: env where
  "unknownNamedEnv =
     offlineEnv\<lparr>findStation := (\<lambda>stationId.
        Inr (Some \<lparr>station_id = stationId, name = ''Unknown Station'', station_lines = None\<rparr>))\<rparr>"

text \<open>A cache holding \<open>exampleFeed\<close> for the feed IRT, stored ten seconds before the first
  clock reading of \<open>offlineEnv\<close>.\<close>

definition cachedWorld :: world where
  "cachedWorld =
     \<lparr>apiCache_data = [''IRT'' \<mapsto> exampleFeed], apiCache_timestamp = [''IRT'' \<mapsto> 1699999990000],
      ticks = 0, draws = 0, requests = []\<rparr>"

text \<open>A real-time entry for line 6 and a scheduled departure of line 6 ninety seconds
  later.\<close>

definition realtime6 :: Arrival where
  "realtime6 =
     \<lparr>arrival_id = ''061200_6..N01R'', line = ''6'', direction = None,
      destination = ''Pelham Bay Park'', arrivalTime = 1700000000000, delay = 0,
      isRealtime = True, isAssigned = None, color = ''#00933C'',
      trainId = Some ''06 1200 BBR/PBP'', currentRating = Some 5\<rparr>"

definition scheduled6 :: ScheduledDeparture where
  "scheduled6 =
     \<lparr>sched_trip_id = ''AFA23GEN-6037-Weekday-00_061200_6..N01R'', route_short_name = ''6'',
      headsign = ''Pelham Bay Park'', arrival_timestamp = 1700000090000, route_color = ''00933C''\<rparr>"

section \<open>Verified properties\<close>

subsection \<open>Feed router\<close>

lemma set_Set_add: "set (Set_add x s) = insert x (set s)"
  by (auto simp: Set_add_def)

lemma distinct_Set_add: "distinct s \<Longrightarrow> distinct (Set_add x s)"
  by (simp add: Set_add_def)

lemma set_addFeedsOfLine:
  "set (addFeedsOfLine l fs acc) =
     set acc \<union> {feedId. \<exists>feed. (feedId, feed) \<in> set fs \<and> l \<in> set (lines feed)}"
  by (induction l fs acc rule: addFeedsOfLine.induct) (auto simp: set_Set_add)

lemma distinct_addFeedsOfLine: "distinct acc \<Longrightarrow> distinct (addFeedsOfLine l fs acc)"
  by (induction l fs acc rule: addFeedsOfLine.induct) (auto simp: distinct_Set_add)

lemma set_collectFeeds:
  "set (collectFeeds ls acc) =
     set acc \<union> {feedId. \<exists>feed. (feedId, feed) \<in> set MTA_FEEDS \<and> set (lines feed) \<inter> set ls \<noteq> {}}"
  by (induction ls acc rule: collectFeeds.induct) (auto simp: set_addFeedsOfLine)

lemma distinct_collectFeeds: "distinct acc \<Longrightarrow> distinct (collectFeeds ls acc)"
  by (induction ls acc rule: collectFeeds.induct) (auto simp: distinct_addFeedsOfLine)

lemma Object_keys_MTA_FEEDS:
  "Object_keys MTA_FEEDS = [''IRT'', ''ACE'', ''NQRW'', ''BDFM'', ''L'', ''G'', ''JZ'', ''SIR'']"
  by (simp add: Object_keys_def MTA_FEEDS_def)

text \<open>
  Claim C7. When the station's line list is missing, empty, or shares no line with any
  feed source of the registry, the router returns the whole registry, all eight feed
  ids in registry order. Otherwise it returns, without repetition, exactly the ids of the
  feed sources whose line list shares a line with the input.
\<close>

theorem getRelevantFeeds_contract:
  "(stationLines = None \<or> stationLines = Some [] \<or>
      (\<exists>ls. stationLines = Some ls \<and>
            (\<forall>(feedId, feed) \<in> set MTA_FEEDS. set (lines feed) \<inter> set ls = {}))
     \<longrightarrow> getRelevantFeeds stationLines =
           [''IRT'', ''ACE'', ''NQRW'', ''BDFM'', ''L'', ''G'', ''JZ'', ''SIR''] \<and>
         length (getRelevantFeeds stationLines) = 8)
   \<and> (\<forall>ls. stationLines = Some ls \<and>
            (\<exists>(feedId, feed) \<in> set MTA_FEEDS. set (lines feed) \<inter> set ls \<noteq> {})
     \<longrightarrow> distinct (getRelevantFeeds stationLines) \<and>
         set (getRelevantFeeds stationLines) =
           {feedId. \<exists>feed. (feedId, feed) \<in> set MTA_FEEDS \<and> set (lines feed) \<inter> set ls \<noteq> {}})"
proof (intro conjI impI allI)
  assume h: "stationLines = None \<or> stationLines = Some [] \<or>
      (\<exists>ls. stationLines = Some ls \<and>
            (\<forall>(feedId, feed) \<in> set MTA_FEEDS. set (lines feed) \<inter> set ls = {}))"
  have "getRelevantFeeds stationLines = Object_keys MTA_FEEDS"
  proof -
    consider "stationLines = None" | "stationLines = Some []"
      | ls where "stationLines = Some ls" "ls \<noteq> []"
          "\<forall>(feedId, feed) \<in> set MTA_FEEDS. set (lines feed) \<inter> set ls = {}"
      using h by (cases stationLines) auto
    then show ?thesis
    proof cases
      case 3
      have "set (collectFeeds ls []) = {}"
        unfolding set_collectFeeds using 3(3) by auto
      then show ?thesis using 3 by (simp add: getRelevantFeeds_def)
    qed (simp_all add: getRelevantFeeds_def)
  qed
  then show "getRelevantFeeds stationLines =
           [''IRT'', ''ACE'', ''NQRW'', ''BDFM'', ''L'', ''G'', ''JZ'', ''SIR'']"
    and "length (getRelevantFeeds stationLines) = 8"
    by (simp_all add: Object_keys_MTA_FEEDS)
next
  fix ls
  assume h: "stationLines = Some ls \<and>
            (\<exists>(feedId, feed) \<in> set MTA_FEEDS. set (lines feed) \<inter> set ls \<noteq> {})"
  then have ne: "ls \<noteq> []" by auto
  have s: "set (collectFeeds ls []) =
      {feedId. \<exists>feed. (feedId, feed) \<in> set MTA_FEEDS \<and> set (lines feed) \<inter> set ls \<noteq> {}}"
    by (simp add: set_collectFeeds)
  have "set (collectFeeds ls []) \<noteq> {}" unfolding s using h by blast
  then have r: "getRelevantFeeds stationLines = collectFeeds ls []"
    using h ne by (simp add: getRelevantFeeds_def Let_def)
  show "distinct (getRelevantFeeds stationLines)"
    unfolding r by (rule distinct_collectFeeds) simp
  show "set (getRelevantFeeds stationLines) =
           {feedId. \<exists>feed. (feedId, feed) \<in> set MTA_FEEDS \<and> set (lines feed) \<inter> set ls \<noteq> {}}"
    unfolding r by (rule s)
qed


lemma feeds_comprehension:
  "{feedId. \<exists>feed. (feedId, feed) \<in> set fs \<and> P feed} = set (map fst (filter (\<lambda>p. P (snd p)) fs))"
  by force

text \<open>The contract at three inputs: no lines, an unknown line, and lines of two feeds.\<close>

theorem getRelevantFeeds_contract_witness:
  "getRelevantFeeds None = [''IRT'', ''ACE'', ''NQRW'', ''BDFM'', ''L'', ''G'', ''JZ'', ''SIR'']
   \<and> getRelevantFeeds (Some [''X'']) = [''IRT'', ''ACE'', ''NQRW'', ''BDFM'', ''L'', ''G'', ''JZ'', ''SIR'']
   \<and> set (getRelevantFeeds (Some [''A'', ''1'', ''C''])) = {''ACE'', ''IRT''}
   \<and> distinct (getRelevantFeeds (Some [''A'', ''1'', ''C'']))"
proof -
  have a: "\<forall>(feedId, feed) \<in> set MTA_FEEDS. set (lines feed) \<inter> set [''X''] = {}"
    by (simp add: MTA_FEEDS_def)
  have b: "\<exists>(feedId, feed) \<in> set MTA_FEEDS. set (lines feed) \<inter> set [''A'', ''1'', ''C''] \<noteq> {}"
    by (simp add: MTA_FEEDS_def)
  have c: "{feedId. \<exists>feed. (feedId, feed) \<in> set MTA_FEEDS \<and> set (lines feed) \<inter> set [''A'', ''1'', ''C''] \<noteq> {}}
      = {''ACE'', ''IRT''}"
    unfolding feeds_comprehension by (simp add: MTA_FEEDS_def insert_commute)
  show ?thesis
    using getRelevantFeeds_contract [of None]
      getRelevantFeeds_contract [of "Some [''X'']"] a
      getRelevantFeeds_contract [of "Some [''A'', ''1'', ''C'']"] b c
    by simp
qed

subsection \<open>Combination with the schedule\<close>

lemma addScheduled_append:
  "addScheduled rts scheds combined =
     combined @ map scheduledEntry (filter (\<lambda>s. \<not> hasRealtime rts s) scheds)"
  by (induction rts scheds combined rule: addScheduled.induct) auto

lemma hasRealtime_iff:
  "hasRealtime rts s \<longleftrightarrow>
     (\<exists>rt \<in> set rts. line rt = route_short_name s \<and> \<bar>arrivalTime rt - arrival_timestamp s\<bar> < 120000)"
  by (simp add: hasRealtime_def list_ex_iff)

lemma combineArrivals_eq:
  "combineArrivals rts scheds = rts @ map scheduledEntry (filter (\<lambda>s. \<not> hasRealtime rts s) scheds)"
  by (simp add: combineArrivals_def addScheduled_append)

text \<open>
  Claim C1. The combined list is the real-time list followed, in order, by the entries
  of exactly those scheduled departures for which no real-time arrival of the same line
  lies less than 120 seconds (120000 ms, the bound of the code's comparison) from the
  scheduled time: a scheduled departure is dropped exactly when there is such an arrival.
  In particular, for a real-time arrival of line 6 at time T and a scheduled departure of
  line 6 at T + 90 s the combined list is the real-time arrival alone, one entry; and it is
  still the one entry of the list after sorting and filtering whenever T lies after the
  time of the merge.
\<close>

theorem combineArrivals_dedup:
  "combineArrivals realtimeArrivals scheduledDepartures =
     realtimeArrivals @
     map scheduledEntry
       (filter (\<lambda>s. \<not> (\<exists>rt \<in> set realtimeArrivals.
                          line rt = route_short_name s \<and>
                          \<bar>arrivalTime rt - arrival_timestamp s\<bar> < 120 * 1000))
          scheduledDepartures)
   \<and> (line rt = ''6'' \<and> route_short_name s = ''6'' \<and> arrival_timestamp s = arrivalTime rt + 90 * 1000
        \<longrightarrow> combineArrivals [rt] [s] = [rt] \<and> length (combineArrivals [rt] [s]) = 1
            \<and> (now < arrivalTime rt \<longrightarrow> mergeArrivals [rt] [s] now = [rt]))"
  by (simp add: combineArrivals_eq hasRealtime_iff mergeArrivals_def sortByArrivalTime_def)

text \<open>The pair of the claim, merged ten seconds before T.\<close>

theorem combineArrivals_dedup_witness:
  "combineArrivals [realtime6] [scheduled6] = [realtime6]
   \<and> length (combineArrivals [realtime6] [scheduled6]) = 1
   \<and> mergeArrivals [realtime6] [scheduled6] 1699999990000 = [realtime6]"
proof -
  have "line realtime6 = ''6'' \<and> route_short_name scheduled6 = ''6''
      \<and> arrival_timestamp scheduled6 = arrivalTime realtime6 + 90 * 1000
      \<and> 1699999990000 < arrivalTime realtime6"
    by (simp add: realtime6_def scheduled6_def)
  then show ?thesis
    using combineArrivals_dedup [of "[]" "[]" realtime6 scheduled6 1699999990000] by simp
qed

text \<open>
  Two remarks on the edges of C1. At a distance of exactly 120 seconds the scheduled
  departure is kept. And the filter that follows the combination removes the real-time
  arrival of the pair when T is not after the time of the merge, so that nothing of the
  pair is left then.
\<close>

lemma combineArrivals_at_120_seconds:
  "line rt = route_short_name s \<Longrightarrow> arrival_timestamp s = arrivalTime rt + 120000 \<Longrightarrow>
   combineArrivals [rt] [s] = [rt, scheduledEntry s]"
  by (simp add: combineArrivals_eq hasRealtime_iff)

lemma mergeArrivals_pair_in_the_past:
  "line rt = route_short_name s \<Longrightarrow> arrival_timestamp s = arrivalTime rt + 90000 \<Longrightarrow>
   arrivalTime rt \<le> now \<Longrightarrow> mergeArrivals [rt] [s] now = []"
  by (simp add: combineArrivals_eq hasRealtime_iff mergeArrivals_def sortByArrivalTime_def)

subsection \<open>Sorting and filtering\<close>

lemma sorted_sortByArrivalTime: "sorted (map arrivalTime (sortByArrivalTime xs))"
  by (simp add: sortByArrivalTime_def)

lemma sorted_mergeArrivals: "sorted (map arrivalTime (mergeArrivals rts scheds now))"
  by (simp add: mergeArrivals_def sortByArrivalTime_def sorted_filter)

lemma future_mergeArrivals: "a \<in> set (mergeArrivals rts scheds now) \<Longrightarrow> now < arrivalTime a"
  by (simp add: mergeArrivals_def)

lemma set_mergeArrivals:
  "set (mergeArrivals rts scheds now) \<subseteq> set rts \<union> scheduledEntry ` set scheds"
  by (auto simp: mergeArrivals_def sortByArrivalTime_def combineArrivals_eq)

text \<open>
  Claim C8. A list that is sorted ascending by arrival time and whose entries all lie
  after the merge time comes back unchanged, in the same order, when it is merged with the
  empty schedule at that merge time. Every output of the merge is such a list, so merging
  it again with the empty schedule returns it.
\<close>

theorem mergeArrivals_idempotent:
  "(sorted (map arrivalTime merged) \<and> (\<forall>a \<in> set merged. now < arrivalTime a)
      \<longrightarrow> mergeArrivals merged [] now = merged)
   \<and> mergeArrivals (mergeArrivals realtimeArrivals scheduledDepartures now) [] now =
       mergeArrivals realtimeArrivals scheduledDepartures now"
proof -
  have same: "mergeArrivals xs [] now = xs"
    if "sorted (map arrivalTime xs)" "\<forall>a \<in> set xs. now < arrivalTime a" for xs
    using that
    by (simp add: mergeArrivals_def combineArrivals_eq sortByArrivalTime_def sort_key_id_if_sorted)
  show ?thesis
    using same [of merged] same [OF sorted_mergeArrivals [of realtimeArrivals scheduledDepartures now]]
    by (auto dest: future_mergeArrivals)
qed

text \<open>A merged list of a real-time entry and two schedule entries, two of them at the
  same time: it comes back in the same order.\<close>

theorem mergeArrivals_idempotent_witness:
  "mergeArrivals
     [realtime6, scheduledEntry scheduled6, scheduledEntry (scheduled6\<lparr>sched_trip_id := ''other''\<rparr>)]
     [] 1699999990000 =
     [realtime6, scheduledEntry scheduled6, scheduledEntry (scheduled6\<lparr>sched_trip_id := ''other''\<rparr>)]"
proof -
  have "sorted (map arrivalTime
          [realtime6, scheduledEntry scheduled6, scheduledEntry (scheduled6\<lparr>sched_trip_id := ''other''\<rparr>)])
      \<and> (\<forall>a \<in> set [realtime6, scheduledEntry scheduled6,
                    scheduledEntry (scheduled6\<lparr>sched_trip_id := ''other''\<rparr>)].
            1699999990000 < arrivalTime a)"
    by (simp add: realtime6_def scheduled6_def scheduledEntry_def)
  then show ?thesis
    using mergeArrivals_idempotent
      [of "[realtime6, scheduledEntry scheduled6, scheduledEntry (scheduled6\<lparr>sched_trip_id := ''other''\<rparr>)]"
          1699999990000 "[]" "[]"]
    by blast
qed

lemma getTrainArrivals_sorted:
  "\<exists>r. fst (getTrainArrivals e stationId w) = Inr r \<and> sorted (map arrivalTime (arrivals r))"
  by (simp add: getTrainArrivals_def Let_def case_prod_beta caughtResult_def
      sorted_sortByArrivalTime split: sum.split option.split)

text \<open>
  Claim C6. Whatever the feeds contain and in whatever order their stop-time updates
  come, \<^verbatim>\<open>getTrainArrivals\<close> returns a result whose arrival list is sorted ascending by
  arrival time; so is the list the route returns after combining with the schedule.
\<close>

theorem arrivals_sorted:
  "(\<exists>r. fst (getTrainArrivals e stationId w) = Inr r \<and> sorted (map arrivalTime (arrivals r)))
   \<and> sorted (map arrivalTime (mergeArrivals realtimeArrivals scheduledDepartures now))"
  using getTrainArrivals_sorted [of e stationId w]
  by (simp add: sorted_mergeArrivals)

lemma extractArrivals_exampleFeed:
  "extractArrivals ''127'' 1700000000 [exampleFeed] = Inr [northArrival, southArrival]"
  by (simp add: extractArrivals_def exampleFeed_def processEntity_def processUpdate_def
      getNyctTripDescriptor_def formatStopId_def arrivalTimeOf_def toISOString_def
      destinationCode_def String_split_def String_endsWith_def getDestinationName_def
      getLineColor_def lineColors_def Let_def northArrival_def southArrival_def)

lemma getRelevantFeeds_123: "getRelevantFeeds (Some [''1'', ''2'', ''3'']) = [''IRT'']"
  by (simp add: getRelevantFeeds_def MTA_FEEDS_def Set_add_def)

lemma fetchMtaFeed_liveEnv:
  "fst (fetchMtaFeed liveEnv ''IRT'' initialWorld) = Inr exampleFeed
   \<and> ticks (snd (fetchMtaFeed liveEnv ''IRT'' initialWorld)) = 1"
  by (simp add: liveEnv_def initialWorld_def fetchMtaFeed_def Date_now_def cachedFeed_def
      parseGtfsRealtimeFeed_def Let_def)

lemma sort_example: "sortByArrivalTime [northArrival, southArrival] = [southArrival, northArrival]"
  by (simp add: sortByArrivalTime_def northArrival_def southArrival_def)

lemma getTrainArrivals_liveEnv:
  "fst (getTrainArrivals liveEnv ''127'' initialWorld) =
     Inr \<lparr>arrivals = [southArrival, northArrival],
          station = Some \<lparr>info_id = ''127'', info_name = ''Times Sq-42 St'',
                          info_lines = [''1'', ''2'', ''3'']\<rparr>\<rparr>"
proof -
  have s: "findStation liveEnv ''127'' = Inr (Some station127)" "\<not> USE_MOCK_DATA liveEnv"
    "station_lines station127 = Some [''1'', ''2'', ''3'']"
    "clock liveEnv (Suc 0) div 1000 = 1700000000"
    by (simp_all add: liveEnv_def station127_def)
  show ?thesis
    using fetchMtaFeed_liveEnv
    by (simp add: getTrainArrivals_def s getRelevantFeeds_123 case_prod_beta Let_def Date_now_def
        extractArrivals_exampleFeed sort_example stationInfo_def station127_def
        split: sum.split)
qed

text \<open>The live example: the extractor finds the northbound train first, the result lists
  the earlier southbound train first.\<close>

theorem arrivals_sorted_witness:
  "fst (getTrainArrivals liveEnv ''127'' initialWorld) =
     Inr \<lparr>arrivals = [southArrival, northArrival],
          station = Some \<lparr>info_id = ''127'', info_name = ''Times Sq-42 St'',
                          info_lines = [''1'', ''2'', ''3'']\<rparr>\<rparr>
   \<and> sorted (map arrivalTime [southArrival, northArrival])
   \<and> sorted (map arrivalTime (mergeArrivals [realtime6] [scheduled6] 1699999990000))"
  using arrivals_sorted [of liveEnv "''127''" initialWorld "[realtime6]" "[scheduled6]" 1699999990000]
    getTrainArrivals_liveEnv
  by auto

subsection \<open>Arrival extraction\<close>

text \<open>What every pass of a loop pushes has a property, so what the loop pushes has it.\<close>

lemma pushAll_all:
  "pushAll body xs = Inr ys \<Longrightarrow>
   (\<And>x zs. x \<in> set xs \<Longrightarrow> body x = Inr zs \<Longrightarrow> \<forall>z \<in> set zs. P z) \<Longrightarrow>
   \<forall>y \<in> set ys. P y"
proof (induction xs arbitrary: ys)
  case Nil
  then show ?case by simp
next
  case (Cons x xs)
  from Cons.prems(1) obtain zs rest where
    b: "body x = Inr zs" and r: "pushAll body xs = Inr rest" and ys: "ys = zs @ rest"
    by (auto split: sum.splits)
  have "\<forall>z \<in> set zs. P z" using Cons.prems(2) [of x zs] b by simp
  moreover have "\<forall>y \<in> set rest. P y"
  proof (rule Cons.IH [OF r])
    fix x' zs' assume "x' \<in> set xs" "body x' = Inr zs'"
    then show "\<forall>z \<in> set zs'. P z" using Cons.prems(2) [of x' zs'] by simp
  qed
  ultimately show ?case using ys by auto
qed

text \<open>Whatever the loop pushed was pushed by one of its passes.\<close>

lemma pushAll_set:
  "pushAll body xs = Inr ys \<Longrightarrow> y \<in> set ys \<Longrightarrow> \<exists>x \<in> set xs. \<exists>zs. body x = Inr zs \<and> y \<in> set zs"
proof (induction xs arbitrary: ys)
  case Nil
  then show ?case by simp
next
  case (Cons x xs)
  from Cons.prems(1) obtain zs rest where
    b: "body x = Inr zs" and r: "pushAll body xs = Inr rest" and ys: "ys = zs @ rest"
    by (auto split: sum.splits)
  show ?case
  proof (cases "y \<in> set zs")
    case True
    then show ?thesis using b by auto
  next
    case False
    then have "y \<in> set rest" using Cons.prems(2) ys by simp
    then show ?thesis using Cons.IH [OF r] by auto
  qed
qed

lemma processUpdate_future:
  "processUpdate stationId (t div 1000) trp nyct u = Inr zs \<Longrightarrow> \<forall>a \<in> set zs. t < arrivalTime a"
  by (auto simp: processUpdate_def Let_def toISOString_def split: if_splits option.splits sum.splits)

lemma processUpdate_emits:
  "processUpdate stationId now trp nyct u = Inr zs \<Longrightarrow>
   \<forall>a \<in> set zs. \<exists>x. arrivalTimeOf u = Some x \<and> now < x \<and> arrivalTime a = x * 1000"
  by (auto simp: processUpdate_def Let_def toISOString_def split: if_splits option.splits sum.splits)

lemma processUpdate_past:
  "arrivalTimeOf u = None \<or> (\<exists>x. arrivalTimeOf u = Some x \<and> x \<le> now) \<Longrightarrow>
   processUpdate stationId now trp nyct u = Inr []"
  by (auto simp: processUpdate_def Let_def)

lemma processEntity_future:
  "processEntity stationId (t div 1000) ent = Inr zs \<Longrightarrow> \<forall>a \<in> set zs. t < arrivalTime a"
  unfolding processEntity_def
  by (auto split: option.splits dest!: pushAll_all [where P = "\<lambda>a. t < arrivalTime a"]
      intro: processUpdate_future [rule_format])

lemma extractArrivals_after_clock:
  "extractArrivals stationId (t div 1000) feeds = Inr found \<Longrightarrow> \<forall>a \<in> set found. t < arrivalTime a"
  unfolding extractArrivals_def
  by (erule pushAll_all) (auto dest!: pushAll_all [where P = "\<lambda>a. t < arrivalTime a"]
      dest: processEntity_future)

text \<open>
  Claim C5. Let \<open>t\<close> be the clock reading (in milliseconds) the extraction starts with, so
  that \<^verbatim>\<open>now\<close> is \<open>t div 1000\<close> seconds. Every arrival the extractor emits has an arrival
  time strictly greater than \<open>t\<close>. An emitted arrival comes from a stop-time update whose
  predicted arrival time (the number the code reads from the update) is strictly greater
  than \<^verbatim>\<open>now\<close>, and carries that time; a stop-time update without a time, or with a time at
  or before \<^verbatim>\<open>now\<close>, produces no entry.
\<close>

theorem extractArrivals_future_only:
  "(extractArrivals stationId (t div 1000) feeds = Inr found \<longrightarrow>
      (\<forall>a \<in> set found. t < arrivalTime a))
   \<and> (processUpdate stationId (t div 1000) trp nyctTrip update = Inr pushed \<longrightarrow>
      (\<forall>a \<in> set pushed. \<exists>x. arrivalTimeOf update = Some x \<and> t div 1000 < x
                            \<and> arrivalTime a = x * 1000 \<and> t < arrivalTime a))
   \<and> (arrivalTimeOf update = None \<or> (\<exists>x. arrivalTimeOf update = Some x \<and> x \<le> t div 1000) \<longrightarrow>
      processUpdate stationId (t div 1000) trp nyctTrip update = Inr [])"
proof (intro conjI impI)
  assume "extractArrivals stationId (t div 1000) feeds = Inr found"
  then show "\<forall>a \<in> set found. t < arrivalTime a" by (rule extractArrivals_after_clock)
next
  assume p: "processUpdate stationId (t div 1000) trp nyctTrip update = Inr pushed"
  show "\<forall>a \<in> set pushed. \<exists>x. arrivalTimeOf update = Some x \<and> t div 1000 < x
                            \<and> arrivalTime a = x * 1000 \<and> t < arrivalTime a"
    using processUpdate_emits [OF p] processUpdate_future [OF p] by blast
next
  assume "arrivalTimeOf update = None \<or> (\<exists>x. arrivalTimeOf update = Some x \<and> x \<le> t div 1000)"
  then show "processUpdate stationId (t div 1000) trp nyctTrip update = Inr []"
    by (rule processUpdate_past)
qed

text \<open>The example feed read at 1700000000501 ms: both emitted arrivals are later, and the
  update of one second before \<^verbatim>\<open>now\<close> is not emitted.\<close>

theorem extractArrivals_future_only_witness:
  "extractArrivals ''127'' (1700000000501 div 1000) [exampleFeed] = Inr [northArrival, southArrival]
   \<and> 1700000000501 < arrivalTime northArrival
   \<and> 1700000000501 < arrivalTime southArrival
   \<and> processUpdate ''127'' (1700000000501 div 1000)
        \<lparr>trip_id = ''061150_2'', route_id = ''2'', extensions = None\<rparr> None
        \<lparr>stop_id = ''127S'',
         arrival = Some \<lparr>time = Some (TimeNumber 1699999999), event_delay = Some 30\<rparr>\<rparr> = Inr []"
proof -
  have p: "arrivalTimeOf \<lparr>stop_id = ''127S'',
         arrival = Some \<lparr>time = Some (TimeNumber 1699999999), event_delay = Some 30\<rparr>\<rparr> = Some 1699999999"
    by (simp add: arrivalTimeOf_def)
  have x: "extractArrivals ''127'' (1700000000501 div 1000) [exampleFeed] = Inr [northArrival, southArrival]"
    using extractArrivals_exampleFeed by simp
  show ?thesis
    using x p extractArrivals_future_only
      [of "''127''" 1700000000501 "[exampleFeed]" "[northArrival, southArrival]"
          "\<lparr>trip_id = ''061150_2'', route_id = ''2'', extensions = None\<rparr>" None
          "\<lparr>stop_id = ''127S'',
            arrival = Some \<lparr>time = Some (TimeNumber 1699999999), event_delay = Some 30\<rparr>\<rparr>" "[]"]
    by simp
qed

subsection \<open>Decoder boundary\<close>

text \<open>
  Claim C2. For every byte sequence, every decoder and every state, \<^verbatim>\<open>parseGtfsRealtimeFeed\<close>
  returns a feed and throws nothing. When the decoder rejects the bytes, the feed has no
  entities and the header timestamp made of the current clock reading (in seconds); when
  the decoder accepts them, the feed is the decoder's.
\<close>

theorem parseGtfsRealtimeFeed_never_raises:
  "(\<exists>feed. fst (parseGtfsRealtimeFeed e buffer w) = Inr feed)
   \<and> (\<forall>err. decode e buffer = Inl err \<longrightarrow>
         fst (parseGtfsRealtimeFeed e buffer w) =
           Inr \<lparr>header_timestamp = real_of_int (clock e (ticks w)) / 1000, entity = []\<rparr>)
   \<and> (\<forall>feed. decode e buffer = Inr feed \<longrightarrow> fst (parseGtfsRealtimeFeed e buffer w) = Inr feed)"
  by (cases "decode e buffer")
     (simp_all add: parseGtfsRealtimeFeed_def Date_now_def emptyFeed_def)

text \<open>Three bytes that the decoder of \<open>offlineEnv\<close> rejects, read at 1700000000000 ms.\<close>

theorem parseGtfsRealtimeFeed_never_raises_witness:
  "fst (parseGtfsRealtimeFeed offlineEnv [0xFF, 0x00, 0x13] initialWorld) =
     Inr \<lparr>header_timestamp = 1700000000, entity = []\<rparr>"
proof -
  have d: "decode offlineEnv [0xFF, 0x00, 0x13] = Inl DecodeError" by (simp add: offlineEnv_def)
  have c: "clock offlineEnv (ticks initialWorld) = 1700000000000"
    by (simp add: offlineEnv_def initialWorld_def)
  show ?thesis
    using parseGtfsRealtimeFeed_never_raises [of offlineEnv "[0xFF, 0x00, 0x13]" initialWorld] d c
    by simp
qed

subsection \<open>Feed fetcher\<close>

lemma fetchMtaFeed_total: "\<exists>feed. fst (fetchMtaFeed e feedId w) = Inr feed"
  by (simp add: fetchMtaFeed_def Let_def case_prod_beta split: option.split sum.split)

lemma fetchAll_total: "\<exists>feeds. fst (fetchAll e feedIds w) = Inr feeds"
proof (induction feedIds arbitrary: w)
  case Nil
  then show ?case by simp
next
  case (Cons feedId rest)
  obtain feed where f: "fst (fetchMtaFeed e feedId w) = Inr feed"
    using fetchMtaFeed_total by blast
  obtain feeds where r: "fst (fetchAll e rest (snd (fetchMtaFeed e feedId w))) = Inr feeds"
    using Cons.IH by blast
  show ?case using f r by (simp add: case_prod_beta)
qed

text \<open>
  With the flag set nothing ever writes the cache or sends a request: the fetcher returns
  before it would, \<^verbatim>\<open>getTrainArrivals\<close> does not call the fetcher, and the generator reads
  only the clock and the random numbers. A process started with the flag set therefore
  stays in states with an empty cache.
\<close>

lemma fetchMtaFeed_offline_step:
  "USE_MOCK_DATA e \<Longrightarrow>
   fetchMtaFeed e feedId w =
     (Inr (case cachedFeed w feedId (clock e (ticks w)) of
             Some feed \<Rightarrow> feed
           | None \<Rightarrow> emptyFeed (clock e (ticks w))),
      w\<lparr>ticks := Suc (ticks w)\<rparr>)"
  by (simp add: fetchMtaFeed_def Date_now_def cachedFeed_def split: option.split)

lemma cachedFeed_empty: "apiCache_data w = Map.empty \<Longrightarrow> cachedFeed w feedId now = None"
  by (simp add: cachedFeed_def)

lemma Math_random_cache:
  "apiCache_data (snd (Math_random e w)) = apiCache_data w
   \<and> requests (snd (Math_random e w)) = requests w"
  by (simp add: Math_random_def)

lemma mockArrival_cache:
  "apiCache_data (snd (mockArrival e now l w)) = apiCache_data w
   \<and> requests (snd (mockArrival e now l w)) = requests w"
  by (simp add: mockArrival_def getRandomDestination_def Let_def case_prod_beta Math_random_cache)

lemma mockArrivalsOfLine_cache:
  "apiCache_data (snd (mockArrivalsOfLine e now l n w)) = apiCache_data w
   \<and> requests (snd (mockArrivalsOfLine e now l n w)) = requests w"
  by (induction n arbitrary: w) (simp_all add: case_prod_beta Let_def mockArrival_cache)

lemma mockArrivalsOfLines_cache:
  "apiCache_data (snd (mockArrivalsOfLines e now ls w)) = apiCache_data w
   \<and> requests (snd (mockArrivalsOfLines e now ls w)) = requests w"
  by (induction ls arbitrary: w)
     (simp_all add: case_prod_beta Let_def mockArrivalsOfLine_cache Math_random_cache)

lemma generateMockArrivals_cache:
  "apiCache_data (snd (generateMockArrivals e st w)) = apiCache_data w
   \<and> requests (snd (generateMockArrivals e st w)) = requests w"
  by (simp add: generateMockArrivals_def Date_now_def Let_def case_prod_beta mockArrivalsOfLines_cache)

lemma getTrainArrivals_offline_cache:
  "USE_MOCK_DATA e \<Longrightarrow>
   apiCache_data (snd (getTrainArrivals e stationId w)) = apiCache_data w
   \<and> requests (snd (getTrainArrivals e stationId w)) = requests w"
  by (simp add: getTrainArrivals_def Let_def case_prod_beta generateMockArrivals_cache
      split: sum.split option.split)

lemma reachable_offline:
  "reachable e w \<Longrightarrow> USE_MOCK_DATA e \<Longrightarrow> apiCache_data w = Map.empty \<and> requests w = []"
proof (induction rule: reachable.induct)
  case loaded
  then show ?case by (simp add: initialWorld_def)
next
  case (fetched w feedId)
  then show ?case by (simp add: fetchMtaFeed_offline_step)
next
  case (served w stationId)
  then show ?case by (simp add: getTrainArrivals_offline_cache)
qed

text \<open>
  Claim C3. When the flag is set, every call of the fetcher, for every feed id and in every
  state the process can be in (the state after loading and whatever earlier calls of the
  fetcher and of \<^verbatim>\<open>getTrainArrivals\<close> have left of it, the cache included), returns the empty
  feed: no entities, header timestamp the clock reading in seconds. The call makes no
  network request (none has been made at all), changes nothing but the count of clock
  readings, and leaves the process in such a state again.
\<close>

theorem fetchMtaFeed_offline:
  "USE_MOCK_DATA e \<and> reachable e w \<longrightarrow>
     fetchMtaFeed e feedId w =
       (Inr \<lparr>header_timestamp = real_of_int (clock e (ticks w)) / 1000, entity = []\<rparr>,
        w\<lparr>ticks := Suc (ticks w)\<rparr>)
     \<and> requests (snd (fetchMtaFeed e feedId w)) = requests w
     \<and> requests (snd (fetchMtaFeed e feedId w)) = []
     \<and> apiCache_data (snd (fetchMtaFeed e feedId w)) = Map.empty
     \<and> reachable e (snd (fetchMtaFeed e feedId w))"
proof
  assume h: "USE_MOCK_DATA e \<and> reachable e w"
  then have f: "USE_MOCK_DATA e" and r: "reachable e w" by simp_all
  have c: "apiCache_data w = Map.empty \<and> requests w = []"
    using r f by (rule reachable_offline)
  have result: "fetchMtaFeed e feedId w =
       (Inr \<lparr>header_timestamp = real_of_int (clock e (ticks w)) / 1000, entity = []\<rparr>,
        w\<lparr>ticks := Suc (ticks w)\<rparr>)"
    using c by (simp add: fetchMtaFeed_offline_step [OF f] cachedFeed_empty emptyFeed_def)
  have next_state: "reachable e (snd (fetchMtaFeed e feedId w))"
    using r by (rule reachable.fetched)
  show "fetchMtaFeed e feedId w =
       (Inr \<lparr>header_timestamp = real_of_int (clock e (ticks w)) / 1000, entity = []\<rparr>,
        w\<lparr>ticks := Suc (ticks w)\<rparr>)
     \<and> requests (snd (fetchMtaFeed e feedId w)) = requests w
     \<and> requests (snd (fetchMtaFeed e feedId w)) = []
     \<and> apiCache_data (snd (fetchMtaFeed e feedId w)) = Map.empty
     \<and> reachable e (snd (fetchMtaFeed e feedId w))"
    using result c next_state by simp
qed

text \<open>The offline deployment: the first call after loading, for the feed ACE, and a second
  call, for the feed IRT, in the state the first has left.\<close>

theorem fetchMtaFeed_offline_witness:
  "fetchMtaFeed offlineEnv ''ACE'' initialWorld =
     (Inr \<lparr>header_timestamp = 1700000000, entity = []\<rparr>, initialWorld\<lparr>ticks := 1\<rparr>)
   \<and> requests (snd (fetchMtaFeed offlineEnv ''ACE'' initialWorld)) = []
   \<and> fst (fetchMtaFeed offlineEnv ''IRT'' (snd (fetchMtaFeed offlineEnv ''ACE'' initialWorld))) =
       Inr \<lparr>header_timestamp = 1700000000001 / 1000, entity = []\<rparr>
   \<and> requests (snd (fetchMtaFeed offlineEnv ''IRT''
        (snd (fetchMtaFeed offlineEnv ''ACE'' initialWorld)))) = []"
proof -
  have f: "USE_MOCK_DATA offlineEnv" by (simp add: offlineEnv_def)
  have r0: "reachable offlineEnv initialWorld" by (rule reachable.loaded)
  have c0: "clock offlineEnv (ticks initialWorld) = 1700000000000" "Suc (ticks initialWorld) = 1"
    by (simp_all add: offlineEnv_def initialWorld_def)
  note call1 = fetchMtaFeed_offline [of offlineEnv initialWorld "''ACE''"]
  have e1: "fetchMtaFeed offlineEnv ''ACE'' initialWorld =
      (Inr \<lparr>header_timestamp = real_of_int (clock offlineEnv (ticks initialWorld)) / 1000, entity = []\<rparr>,
       initialWorld\<lparr>ticks := Suc (ticks initialWorld)\<rparr>)"
    using call1 f r0 by blast
  have first: "fetchMtaFeed offlineEnv ''ACE'' initialWorld =
     (Inr \<lparr>header_timestamp = 1700000000, entity = []\<rparr>, initialWorld\<lparr>ticks := 1\<rparr>)"
    unfolding e1 c0 by simp
  have quiet1: "requests (snd (fetchMtaFeed offlineEnv ''ACE'' initialWorld)) = []"
    using call1 f r0 by blast
  let ?w = "snd (fetchMtaFeed offlineEnv ''ACE'' initialWorld)"
  have r1: "reachable offlineEnv ?w"
    using call1 f r0 by blast
  have c1: "clock offlineEnv (ticks ?w) = 1700000000001"
    unfolding first by (simp add: offlineEnv_def)
  note call2 = fetchMtaFeed_offline [of offlineEnv ?w "''IRT''"]
  have e2: "fetchMtaFeed offlineEnv ''IRT'' ?w =
      (Inr \<lparr>header_timestamp = real_of_int (clock offlineEnv (ticks ?w)) / 1000, entity = []\<rparr>,
       ?w\<lparr>ticks := Suc (ticks ?w)\<rparr>)"
    using call2 f r1 by blast
  have second: "fst (fetchMtaFeed offlineEnv ''IRT'' ?w) =
       Inr \<lparr>header_timestamp = 1700000000001 / 1000, entity = []\<rparr>"
    unfolding e2 c1 by simp
  have quiet2: "requests (snd (fetchMtaFeed offlineEnv ''IRT'' ?w)) = []"
    using call2 f r1 by blast
  show ?thesis using first quiet1 second quiet2 by blast
qed

text \<open>
  A remark on C3. The fetcher looks into the cache before it looks at the flag, so that in
  any state whatever, with the flag set, it returns a cached feed younger than 30 seconds
  if there is one. No process with the flag set is ever in a state with such an entry:
  \<open>cachedWorld\<close>, for one, is not reachable.
\<close>

lemma fetchMtaFeed_offline_any_state:
  "USE_MOCK_DATA e \<Longrightarrow>
   fetchMtaFeed e feedId w =
     (Inr (case cachedFeed w feedId (clock e (ticks w)) of
             Some feed \<Rightarrow> feed
           | None \<Rightarrow> \<lparr>header_timestamp = real_of_int (clock e (ticks w)) / 1000, entity = []\<rparr>),
      w\<lparr>ticks := Suc (ticks w)\<rparr>)
   \<and> requests (snd (fetchMtaFeed e feedId w)) = requests w
   \<and> apiCache_data (snd (fetchMtaFeed e feedId w)) = apiCache_data w"
proof -
  assume f: "USE_MOCK_DATA e"
  show ?thesis unfolding fetchMtaFeed_offline_step [OF f] emptyFeed_def by simp
qed

lemma cachedWorld_unreachable: "\<not> reachable offlineEnv cachedWorld"
proof
  assume "reachable offlineEnv cachedWorld"
  then have "apiCache_data cachedWorld = Map.empty"
    using reachable_offline [of offlineEnv cachedWorld] by (simp add: offlineEnv_def)
  then have "apiCache_data cachedWorld ''IRT'' = None" by simp
  then show False by (simp add: cachedWorld_def)
qed

subsection \<open>Errors of \<^verbatim>\<open>getTrainArrivals\<close>\<close>

lemma getTrainArrivals_total: "\<exists>r. fst (getTrainArrivals e stationId w) = Inr r"
  using getTrainArrivals_sorted by blast

text \<open>
  Claim C4 as stated fails: for an id without station record \<^verbatim>\<open>getTrainArrivals\<close> returns
  normally, with an ordinary result object, and that object is no sign of a missing
  station either: an existing station named ``Unknown Station'' without lines gives the
  very same result.
\<close>

theorem getTrainArrivals_not_found_counterexample:
  "findStation offlineEnv ''999'' = Inr None
   \<and> fst (getTrainArrivals offlineEnv ''999'' initialWorld) =
       Inr \<lparr>arrivals = [],
            station = Some \<lparr>info_id = ''999'', info_name = ''Unknown Station'', info_lines = []\<rparr>\<rparr>
   \<and> findStation unknownNamedEnv ''999'' =
       Inr (Some \<lparr>station_id = ''999'', name = ''Unknown Station'', station_lines = None\<rparr>)
   \<and> fst (getTrainArrivals unknownNamedEnv ''999'' initialWorld) =
       Inr \<lparr>arrivals = [],
            station = Some \<lparr>info_id = ''999'', info_name = ''Unknown Station'', info_lines = []\<rparr>\<rparr>"
  by (simp add: offlineEnv_def unknownNamedEnv_def initialWorld_def getTrainArrivals_def
      generateMockArrivals_def Date_now_def sortByArrivalTime_def stationInfo_def)

text \<open>
  Claim C4, amended. \<^verbatim>\<open>getTrainArrivals\<close> never throws: whatever the station lookup, the
  transport and the decoder do, it returns a result. For an id without station record the
  result is the placeholder with no arrivals and the station
  \<^verbatim>\<open>{ id: stationId, name: "Unknown Station", lines: [] }\<close>, and the state is unchanged; when the
  station lookup throws, the result is \<^verbatim>\<open>{ arrivals: [] }\<close>. The fetcher, too, always returns
  a feed.
\<close>

theorem getTrainArrivals_absorbs:
  "(\<exists>r. fst (getTrainArrivals e stationId w) = Inr r)
   \<and> (findStation e stationId = Inr None \<longrightarrow>
        getTrainArrivals e stationId w =
          (Inr \<lparr>arrivals = [],
                station = Some \<lparr>info_id = stationId, info_name = ''Unknown Station'', info_lines = []\<rparr>\<rparr>, w))
   \<and> (\<forall>err. findStation e stationId = Inl err \<longrightarrow>
        getTrainArrivals e stationId w = (Inr \<lparr>arrivals = [], station = None\<rparr>, w))
   \<and> (\<exists>feed. fst (fetchMtaFeed e feedId w) = Inr feed)"
  using getTrainArrivals_total [of e stationId w] fetchMtaFeed_total [of e feedId w]
  by (simp add: getTrainArrivals_def caughtResult_def)

text \<open>The id 999 in the deployment without stations.\<close>

theorem getTrainArrivals_absorbs_witness:
  "getTrainArrivals offlineEnv ''999'' initialWorld =
     (Inr \<lparr>arrivals = [],
           station = Some \<lparr>info_id = ''999'', info_name = ''Unknown Station'', info_lines = []\<rparr>\<rparr>,
      initialWorld)"
proof -
  have "findStation offlineEnv ''999'' = Inr None" by (simp add: offlineEnv_def)
  then show ?thesis
    using getTrainArrivals_absorbs [of offlineEnv "''999''" initialWorld] by simp
qed

subsection \<open>Synthetic arrival generator\<close>

lemma Math_random_range: "0 \<le> fst (Math_random e w) \<and> fst (Math_random e w) < 1"
  using random_value [of "rng e (draws w)"] by (simp add: Math_random_def)

text \<open>\<^verbatim>\<open>Math.floor(Math.random() * 30)\<close> is one of 0, ..., 29.\<close>

lemma minutes_range:
  "0 \<le> \<lfloor>fst (Math_random e w) * 30\<rfloor> \<and> \<lfloor>fst (Math_random e w) * 30\<rfloor> \<le> 29"
  using Math_random_range [of e w] by (simp add: floor_le_iff)

text \<open>\<^verbatim>\<open>Math.floor(Math.random() * 4) + 2\<close> is one of 2, 3, 4, 5.\<close>

lemma numArrivals_range:
  "2 \<le> nat (\<lfloor>fst (Math_random e w) * 4\<rfloor> + 2) \<and> nat (\<lfloor>fst (Math_random e w) * 4\<rfloor> + 2) \<le> 5"
proof -
  have "0 \<le> \<lfloor>fst (Math_random e w) * 4\<rfloor>" "\<lfloor>fst (Math_random e w) * 4\<rfloor> \<le> 3"
    using Math_random_range [of e w] by (simp_all add: floor_le_iff)
  then show ?thesis by linarith
qed

text \<open>The index \<^verbatim>\<open>getRandomDestination\<close> reads is within the candidate list.\<close>

lemma destination_index_in_range:
  assumes "ds \<noteq> []"
  shows "nat \<lfloor>fst (Math_random e w) * real (length ds)\<rfloor> < length ds"
proof -
  have "fst (Math_random e w) * real (length ds) < real (length ds)"
    using Math_random_range [of e w] assms by simp
  then have "\<lfloor>fst (Math_random e w) * real (length ds)\<rfloor> < int (length ds)"
    by (simp add: floor_less_iff)
  moreover have "0 < int (length ds)" using assms by simp
  ultimately show ?thesis by arith
qed

lemma lineDestinations_nonempty:
  "(case map_of lineDestinationsTable l of Some ds \<Rightarrow> ds | None \<Rightarrow> [''UNK'']) \<noteq> []"
  by (simp add: lineDestinationsTable_def)

text \<open>The destination code is one of the candidates of the line, or the placeholder.\<close>

lemma getRandomDestination_candidate:
  "fst (getRandomDestination e l w) \<in>
     set (case map_of lineDestinationsTable l of Some ds \<Rightarrow> ds | None \<Rightarrow> [''UNK''])"
  using destination_index_in_range [OF lineDestinations_nonempty [of l], of e w]
  by (simp add: getRandomDestination_def Let_def case_prod_beta)

text \<open>One pass of the generator with every random number equal to one half.\<close>

lemma random_value_half: "random_value (Abs_unit_interval (1 / 2)) = 1 / 2"
  by (simp add: Abs_unit_interval_inverse)

lemma mockArrival_example:
  "fst (mockArrival downEnv 1700000000500 ''1'' initialWorld) =
     \<lparr>arrival_id = ''1_50000'', line = ''1'', direction = None, destination = ''South Ferry'',
      arrivalTime = 1700001020500, delay = 0, isRealtime = True, isAssigned = Some True,
      color = ''#EE352E'', trainId = Some ''0 15000'', currentRating = None\<rparr>"
  by (simp add: mockArrival_def Math_random_def downEnv_def liveEnv_def initialWorld_def
      random_value_half getRandomDestination_def lineDestinationsTable_def getDestinationName_def
      getLineColor_def lineColors_def string_of_int_def digitChar_def Let_def)

lemma mockArrival_props:
  "line (fst (mockArrival e now l w)) = l
   \<and> isRealtime (fst (mockArrival e now l w))
   \<and> now + 2 * 60000 \<le> arrivalTime (fst (mockArrival e now l w))
   \<and> arrivalTime (fst (mockArrival e now l w)) \<le> now + 31 * 60000"
  using minutes_range [of e w]
  by (simp add: mockArrival_def Let_def case_prod_beta)

lemma mockArrivalsOfLine_props:
  "length (fst (mockArrivalsOfLine e now l n w)) = n
   \<and> (\<forall>a \<in> set (fst (mockArrivalsOfLine e now l n w)).
         line a = l \<and> isRealtime a \<and> now + 2 * 60000 \<le> arrivalTime a \<and> arrivalTime a \<le> now + 31 * 60000)"
proof (induction n arbitrary: w)
  case 0
  then show ?case by simp
next
  case (Suc n)
  show ?case
    using Suc.IH [of "snd (mockArrival e now l w)"] mockArrival_props [of e now l w]
    by (simp add: case_prod_beta Let_def)
qed

lemma mockArrivalsOfLines_all:
  "\<forall>a \<in> set (fst (mockArrivalsOfLines e now ls w)).
     line a \<in> set ls \<and> isRealtime a \<and> now + 2 * 60000 \<le> arrivalTime a \<and> arrivalTime a \<le> now + 31 * 60000"
proof (induction ls arbitrary: w)
  case Nil
  then show ?case by simp
next
  case (Cons l ls)
  let ?w1 = "snd (Math_random e w)"
  let ?n = "nat (\<lfloor>fst (Math_random e w) * 4\<rfloor> + 2)"
  let ?w2 = "snd (mockArrivalsOfLine e now l ?n ?w1)"
  show ?case
    using Cons.IH [of ?w2] mockArrivalsOfLine_props [of e now l ?n ?w1]
    by (auto simp: case_prod_beta Let_def)
qed

lemma filter_line_same:
  "\<forall>a \<in> set xs. line a = l \<Longrightarrow> filter (\<lambda>a. line a = k) xs = (if k = l then xs else [])"
  by (induction xs) auto

text \<open>The number of arrivals of a line \<open>k\<close>, for a line list that may name \<open>k\<close> several
  times.\<close>

lemma mockArrivalsOfLines_count:
  "2 * count_list ls k \<le> length (filter (\<lambda>a. line a = k) (fst (mockArrivalsOfLines e now ls w)))
   \<and> length (filter (\<lambda>a. line a = k) (fst (mockArrivalsOfLines e now ls w))) \<le> 5 * count_list ls k"
proof (induction ls arbitrary: w)
  case Nil
  then show ?case by simp
next
  case (Cons l ls)
  let ?w1 = "snd (Math_random e w)"
  let ?n = "nat (\<lfloor>fst (Math_random e w) * 4\<rfloor> + 2)"
  let ?first = "fst (mockArrivalsOfLine e now l ?n ?w1)"
  let ?w2 = "snd (mockArrivalsOfLine e now l ?n ?w1)"
  have f: "filter (\<lambda>a. line a = k) ?first = (if k = l then ?first else [])"
    using mockArrivalsOfLine_props [of e now l ?n ?w1] by (intro filter_line_same) simp
  have n: "length ?first = ?n"
    using mockArrivalsOfLine_props [of e now l ?n ?w1] by simp
  have r: "2 \<le> ?n \<and> ?n \<le> 5" by (rule numArrivals_range)
  have split: "fst (mockArrivalsOfLines e now (l # ls) w) = ?first @ fst (mockArrivalsOfLines e now ls ?w2)"
    by (simp add: case_prod_beta Let_def)
  show ?case
  proof (cases "k = l")
    case True
    then show ?thesis
      unfolding split using Cons.IH [of ?w2] f n r by simp
  next
    case False
    then show ?thesis
      unfolding split using Cons.IH [of ?w2] f by simp
  qed
qed

lemma mockArrivalsOfLines_length:
  "2 * length ls \<le> length (fst (mockArrivalsOfLines e now ls w))
   \<and> length (fst (mockArrivalsOfLines e now ls w)) \<le> 5 * length ls"
proof (induction ls arbitrary: w)
  case Nil
  then show ?case by simp
next
  case (Cons l ls)
  let ?w1 = "snd (Math_random e w)"
  let ?n = "nat (\<lfloor>fst (Math_random e w) * 4\<rfloor> + 2)"
  let ?w2 = "snd (mockArrivalsOfLine e now l ?n ?w1)"
  show ?case
    using Cons.IH [of ?w2] numArrivals_range [of e w] mockArrivalsOfLine_props [of e now l ?n ?w1]
    by (simp add: case_prod_beta Let_def)
qed

lemma generateMockArrivals_eq:
  "fst (generateMockArrivals e st w) =
     sortByArrivalTime (fst (mockArrivalsOfLines e (clock e (ticks w))
        (case station_lines st of Some x \<Rightarrow> x | None \<Rightarrow> []) (w\<lparr>ticks := Suc (ticks w)\<rparr>)))"
  by (simp add: generateMockArrivals_def Date_now_def Let_def case_prod_beta sortByArrivalTime_def)

lemma generateMockArrivals_all:
  "station_lines st = Some ls \<Longrightarrow>
   \<forall>a \<in> set (fst (generateMockArrivals e st w)).
     line a \<in> set ls \<and> isRealtime a \<and> clock e (ticks w) + 2 * 60000 \<le> arrivalTime a
     \<and> arrivalTime a \<le> clock e (ticks w) + 31 * 60000"
  using mockArrivalsOfLines_all [of e "clock e (ticks w)" ls "w\<lparr>ticks := Suc (ticks w)\<rparr>"]
  by (simp add: generateMockArrivals_eq sortByArrivalTime_def)

lemma generateMockArrivals_realtime: "\<forall>a \<in> set (fst (generateMockArrivals e st w)). isRealtime a"
  using mockArrivalsOfLines_all [of e "clock e (ticks w)" _ "w\<lparr>ticks := Suc (ticks w)\<rparr>"]
  by (simp add: generateMockArrivals_eq sortByArrivalTime_def)

lemma generateMockArrivals_count:
  "station_lines st = Some ls \<Longrightarrow>
   2 * count_list ls k \<le> length (filter (\<lambda>a. line a = k) (fst (generateMockArrivals e st w)))
   \<and> length (filter (\<lambda>a. line a = k) (fst (generateMockArrivals e st w))) \<le> 5 * count_list ls k"
  using mockArrivalsOfLines_count [of ls k e "clock e (ticks w)" "w\<lparr>ticks := Suc (ticks w)\<rparr>"]
  by (simp add: generateMockArrivals_eq sortByArrivalTime_def filter_sort)

lemma generateMockArrivals_length:
  "station_lines st = Some ls \<Longrightarrow>
   2 * length ls \<le> length (fst (generateMockArrivals e st w))
   \<and> length (fst (generateMockArrivals e st w)) \<le> 5 * length ls"
  using mockArrivalsOfLines_length [of ls e "clock e (ticks w)" "w\<lparr>ticks := Suc (ticks w)\<rparr>"]
  by (simp add: generateMockArrivals_eq sortByArrivalTime_def)

lemma count_list_distinct: "distinct xs \<Longrightarrow> x \<in> set xs \<Longrightarrow> count_list xs x = 1"
  by (induction xs) auto

lemma extractArrivals_empty_feed: "entity feed = [] \<Longrightarrow> extractArrivals stationId now [feed] = Inr []"
  by (simp add: extractArrivals_def)

text \<open>A live station of the lines 1, 2, 3 whose one relevant feed comes back without
  entities: the result is what the generator makes, sorted.\<close>

lemma getTrainArrivals_fallback:
  assumes "\<not> USE_MOCK_DATA e" "findStation e stationId = Inr (Some st)"
    "station_lines st = Some [''1'', ''2'', ''3'']"
    "fst (fetchMtaFeed e ''IRT'' w) = Inr feed" "entity feed = []"
  shows "fst (getTrainArrivals e stationId w) =
           Inr \<lparr>arrivals = sortByArrivalTime (fst (generateMockArrivals e st
                    ((snd (fetchMtaFeed e ''IRT'' w))
                       \<lparr>ticks := Suc (ticks (snd (fetchMtaFeed e ''IRT'' w)))\<rparr>))),
                station = Some (stationInfo stationId st)\<rparr>"
  using assms
  by (simp add: getTrainArrivals_def getRelevantFeeds_123 case_prod_beta Let_def Date_now_def
      extractArrivals_empty_feed)

text \<open>
  Claim C9. For a station whose line list is non-empty and names every line once, and for
  every sequence of random numbers, the generator makes between 2 and 5 arrivals of each
  line; every arrival it makes is of a line of the station and lies between 2 and 32
  minutes after the clock reading the generator starts with. In the integration scenario
  (flag unset, a station of the lines 1, 2, 3, the one relevant feed decoded to no
  entities) \<^verbatim>\<open>getTrainArrivals\<close> returns between 4 and 15 arrivals, all of those lines and
  all between 2 and 32 minutes after the generator's clock reading.
\<close>

theorem generateMockArrivals_contract:
  "(station_lines st = Some ls \<and> ls \<noteq> [] \<and> distinct ls \<longrightarrow>
      (\<forall>l \<in> set ls.
          2 \<le> length (filter (\<lambda>a. line a = l) (fst (generateMockArrivals e st w)))
          \<and> length (filter (\<lambda>a. line a = l) (fst (generateMockArrivals e st w))) \<le> 5)
      \<and> (\<forall>a \<in> set (fst (generateMockArrivals e st w)).
            line a \<in> set ls
            \<and> clock e (ticks w) + 2 * 60 * 1000 \<le> arrivalTime a
            \<and> arrivalTime a \<le> clock e (ticks w) + 32 * 60 * 1000))
   \<and> (\<not> USE_MOCK_DATA e \<and> findStation e stationId = Inr (Some st)
       \<and> station_lines st = Some [''1'', ''2'', ''3'']
       \<and> fst (fetchMtaFeed e ''IRT'' w) = Inr feed \<and> entity feed = [] \<longrightarrow>
      (\<exists>r. fst (getTrainArrivals e stationId w) = Inr r
           \<and> 4 \<le> length (arrivals r) \<and> length (arrivals r) \<le> 15
           \<and> (\<forall>a \<in> set (arrivals r).
                 line a \<in> {''1'', ''2'', ''3''}
                 \<and> clock e (Suc (ticks (snd (fetchMtaFeed e ''IRT'' w)))) + 2 * 60 * 1000 \<le> arrivalTime a
                 \<and> arrivalTime a \<le> clock e (Suc (ticks (snd (fetchMtaFeed e ''IRT'' w)))) + 32 * 60 * 1000)))"
proof (intro conjI impI)
  assume h: "station_lines st = Some ls \<and> ls \<noteq> [] \<and> distinct ls"
  show "\<forall>l \<in> set ls.
          2 \<le> length (filter (\<lambda>a. line a = l) (fst (generateMockArrivals e st w)))
          \<and> length (filter (\<lambda>a. line a = l) (fst (generateMockArrivals e st w))) \<le> 5"
  proof
    fix l assume "l \<in> set ls"
    then have "count_list ls l = 1" using h by (simp add: count_list_distinct)
    then show "2 \<le> length (filter (\<lambda>a. line a = l) (fst (generateMockArrivals e st w)))
          \<and> length (filter (\<lambda>a. line a = l) (fst (generateMockArrivals e st w))) \<le> 5"
      using generateMockArrivals_count [of st ls l e w] h by simp
  qed
  show "\<forall>a \<in> set (fst (generateMockArrivals e st w)).
            line a \<in> set ls
            \<and> clock e (ticks w) + 2 * 60 * 1000 \<le> arrivalTime a
            \<and> arrivalTime a \<le> clock e (ticks w) + 32 * 60 * 1000"
    using generateMockArrivals_all [of st ls e w] h by fastforce
next
  assume h: "\<not> USE_MOCK_DATA e \<and> findStation e stationId = Inr (Some st)
       \<and> station_lines st = Some [''1'', ''2'', ''3'']
       \<and> fst (fetchMtaFeed e ''IRT'' w) = Inr feed \<and> entity feed = []"
  let ?w1 = "snd (fetchMtaFeed e ''IRT'' w)"
  let ?w2 = "?w1\<lparr>ticks := Suc (ticks ?w1)\<rparr>"
  let ?mock = "fst (generateMockArrivals e st ?w2)"
  have r: "fst (getTrainArrivals e stationId w) =
      Inr \<lparr>arrivals = sortByArrivalTime ?mock, station = Some (stationInfo stationId st)\<rparr>"
    using h getTrainArrivals_fallback [of e stationId st w feed] by blast
  have len: "2 * 3 \<le> length ?mock \<and> length ?mock \<le> 5 * 3"
    using generateMockArrivals_length [of st "[''1'', ''2'', ''3'']" e ?w2] h by simp
  have all: "\<forall>a \<in> set ?mock. line a \<in> set [''1'', ''2'', ''3'']
       \<and> clock e (ticks ?w2) + 2 * 60000 \<le> arrivalTime a
       \<and> arrivalTime a \<le> clock e (ticks ?w2) + 31 * 60000"
    using generateMockArrivals_all [of st "[''1'', ''2'', ''3'']" e ?w2] h by blast
  show "\<exists>r. fst (getTrainArrivals e stationId w) = Inr r
           \<and> 4 \<le> length (arrivals r) \<and> length (arrivals r) \<le> 15
           \<and> (\<forall>a \<in> set (arrivals r).
                 line a \<in> {''1'', ''2'', ''3''}
                 \<and> clock e (Suc (ticks ?w1)) + 2 * 60 * 1000 \<le> arrivalTime a
                 \<and> arrivalTime a \<le> clock e (Suc (ticks ?w1)) + 32 * 60 * 1000)"
    unfolding r using len all by (fastforce simp: sortByArrivalTime_def)
qed

lemma fetchMtaFeed_downEnv:
  "fetchMtaFeed downEnv ''IRT'' initialWorld =
     (Inr \<lparr>header_timestamp = 1700000000500 / 1000, entity = []\<rparr>,
      initialWorld\<lparr>ticks := 1,
        requests := [''https://api-endpoint.mta.info/Dataservice/mtagtfsfeeds/nyct%2Fgtfs'']\<rparr>)"
  by (simp add: downEnv_def liveEnv_def initialWorld_def fetchMtaFeed_def Date_now_def
      cachedFeed_def emptyFeed_def feedUrlOf_def MTA_FEEDS_def MTA_API_BASE_URL_def)

text \<open>Station 127 with the upstream unreachable: the failed fetch gives the empty feed, and
  the result is synthetic.\<close>

theorem generateMockArrivals_contract_witness:
  "2 \<le> length (filter (\<lambda>a. line a = ''2'') (fst (generateMockArrivals downEnv station127 initialWorld)))
   \<and> length (filter (\<lambda>a. line a = ''2'') (fst (generateMockArrivals downEnv station127 initialWorld))) \<le> 5
   \<and> (\<exists>r. fst (getTrainArrivals downEnv ''127'' initialWorld) = Inr r
           \<and> 4 \<le> length (arrivals r) \<and> length (arrivals r) \<le> 15)"
proof -
  have a: "station_lines station127 = Some [''1'', ''2'', ''3''] \<and> [''1'', ''2'', ''3''] \<noteq> []
       \<and> distinct [''1'', ''2'', ''3'']"
    by (simp add: station127_def)
  have b: "\<not> USE_MOCK_DATA downEnv \<and> findStation downEnv ''127'' = Inr (Some station127)"
    by (simp add: downEnv_def liveEnv_def)
  have c: "fst (fetchMtaFeed downEnv ''IRT'' initialWorld) =
      Inr \<lparr>header_timestamp = 1700000000500 / 1000, entity = []\<rparr>"
    by (simp add: fetchMtaFeed_downEnv)
  show ?thesis
    using generateMockArrivals_contract
      [of station127 "[''1'', ''2'', ''3'']" downEnv initialWorld "''127''"
          "\<lparr>header_timestamp = 1700000000500 / 1000, entity = []\<rparr>"] a b c
    by auto
qed

subsection \<open>The realtime flag in the merged list\<close>

lemma realtimeArrivalsOf_entries:
  "x \<in> set (realtimeArrivalsOf ratingOf mtaArrivals) \<Longrightarrow>
   \<exists>train \<in> set mtaArrivals. \<exists>rating. x = realtimeEntry rating train"
proof -
  assume x: "x \<in> set (realtimeArrivalsOf ratingOf mtaArrivals)"
  let ?body = "\<lambda>train. case ratingOf (arrival_id train) of
                          Inl err \<Rightarrow> Inl err
                        | Inr rating \<Rightarrow> Inr [realtimeEntry rating train]"
  from x obtain entries where p: "pushAll ?body mtaArrivals = Inr entries" and "x \<in> set entries"
    by (cases "pushAll ?body mtaArrivals") (simp_all add: realtimeArrivalsOf_def)
  then obtain train zs where t: "train \<in> set mtaArrivals" "?body train = Inr zs" "x \<in> set zs"
    using pushAll_set [OF p] by blast
  show ?thesis
  proof (cases "ratingOf (arrival_id train)")
    case (Inl err)
    then show ?thesis using t by simp
  next
    case (Inr rating)
    then have "x = realtimeEntry rating train" using t by auto
    then show ?thesis using t(1) by blast
  qed
qed

lemma isRealtime_realtimeEntry: "isRealtime (realtimeEntry rating train)"
  by (simp add: realtimeEntry_def)

lemma isRealtime_scheduledEntry: "\<not> isRealtime (scheduledEntry s)"
  by (simp add: scheduledEntry_def)

text \<open>
  Claim C10. Every arrival the generator makes has the realtime flag set. The entry the
  route builds from an arrival of \<^verbatim>\<open>getTrainArrivals\<close> has the flag set, a train id and a
  rating, and neither direction nor assignment flag, whether the arrival is synthetic or
  decoded; it is a function of the id, line, destination, arrival time, delay, colour and
  train id alone, so two arrivals that agree on these give the same entry. In the merged
  list an entry with the flag set is such an entry, and an entry with the flag unset is the
  entry of a scheduled departure; every entry of a scheduled departure has the flag unset.
\<close>

theorem synthetic_arrivals_realtime_flag:
  "(\<forall>a \<in> set (fst (generateMockArrivals e st w)). isRealtime a)
   \<and> isRealtime (realtimeEntry rating train)
   \<and> direction (realtimeEntry rating train) = None
   \<and> isAssigned (realtimeEntry rating train) = None
   \<and> trainId (realtimeEntry rating train) \<noteq> None
   \<and> currentRating (realtimeEntry rating train) \<noteq> None
   \<and> (arrival_id a = arrival_id b \<and> line a = line b \<and> destination a = destination b
        \<and> arrivalTime a = arrivalTime b \<and> delay a = delay b \<and> color a = color b
        \<and> trainId a = trainId b
       \<longrightarrow> realtimeEntry rating a = realtimeEntry rating b)
   \<and> (\<forall>x \<in> set (mergeArrivals (realtimeArrivalsOf ratingOf mtaArrivals) scheduledDepartures now).
         if isRealtime x
         then \<exists>t \<in> set mtaArrivals. \<exists>r. x = realtimeEntry r t
         else \<exists>s \<in> set scheduledDepartures. x = scheduledEntry s)
   \<and> \<not> isRealtime (scheduledEntry scheduled)"
proof -
  have m: "\<forall>x \<in> set (mergeArrivals (realtimeArrivalsOf ratingOf mtaArrivals) scheduledDepartures now).
         if isRealtime x
         then \<exists>t \<in> set mtaArrivals. \<exists>r. x = realtimeEntry r t
         else \<exists>s \<in> set scheduledDepartures. x = scheduledEntry s"
  proof
    fix x assume "x \<in> set (mergeArrivals (realtimeArrivalsOf ratingOf mtaArrivals) scheduledDepartures now)"
    then consider "x \<in> set (realtimeArrivalsOf ratingOf mtaArrivals)"
      | "x \<in> scheduledEntry ` set scheduledDepartures"
      using set_mergeArrivals by blast
    then show "if isRealtime x
         then \<exists>t \<in> set mtaArrivals. \<exists>r. x = realtimeEntry r t
         else \<exists>s \<in> set scheduledDepartures. x = scheduledEntry s"
    proof cases
      case 1
      then obtain t r where "t \<in> set mtaArrivals" "x = realtimeEntry r t"
        using realtimeArrivalsOf_entries by blast
      then show ?thesis using isRealtime_realtimeEntry by auto
    next
      case 2
      then show ?thesis using isRealtime_scheduledEntry by auto
    qed
  qed
  have shape: "isRealtime (realtimeEntry rating train)
      \<and> direction (realtimeEntry rating train) = None
      \<and> isAssigned (realtimeEntry rating train) = None
      \<and> trainId (realtimeEntry rating train) \<noteq> None
      \<and> currentRating (realtimeEntry rating train) \<noteq> None"
    by (simp add: realtimeEntry_def)
  have same: "arrival_id a = arrival_id b \<and> line a = line b \<and> destination a = destination b
        \<and> arrivalTime a = arrivalTime b \<and> delay a = delay b \<and> color a = color b
        \<and> trainId a = trainId b
       \<longrightarrow> realtimeEntry rating a = realtimeEntry rating b"
    by (simp add: realtimeEntry_def split: option.split)
  from generateMockArrivals_realtime [of e st w] shape same m isRealtime_scheduledEntry [of scheduled]
  show ?thesis by blast
qed

text \<open>The two decoded example arrivals and the scheduled departure of line 6, merged.\<close>

lemma realtimeArrivalsOf_example:
  "realtimeArrivalsOf (\<lambda>tid. Inr None) [southArrival, northArrival] =
     [realtimeEntry None southArrival, realtimeEntry None northArrival]"
  by (simp add: realtimeArrivalsOf_def)

lemma example_fields:
  "arrivalTime (realtimeEntry None southArrival) = 1700000100000"
  "arrivalTime (realtimeEntry None northArrival) = 1700000300000"
  "arrivalTime (scheduledEntry scheduled6) = 1700000090000"
  "line (realtimeEntry None southArrival) = ''2''"
  "line (realtimeEntry None northArrival) = ''1''"
  "route_short_name scheduled6 = ''6''"
  "arrival_timestamp scheduled6 = 1700000090000"
  by (simp_all add: realtimeEntry_def scheduledEntry_def scheduled6_def northArrival_def southArrival_def)

lemma merge_example:
  "mergeArrivals (realtimeArrivalsOf (\<lambda>tid. Inr None) [southArrival, northArrival])
     [scheduled6] 1700000000000 =
   [scheduledEntry scheduled6, realtimeEntry None southArrival, realtimeEntry None northArrival]"
  by (simp add: realtimeArrivalsOf_example mergeArrivals_def combineArrivals_eq hasRealtime_iff
      sortByArrivalTime_def example_fields)

text \<open>
  The decoded northbound arrival and an arrival of the generator's shape (no direction)
  with the same id, line, destination, time, delay, colour and train id give one and the
  same entry; in the merged example the schedule entry alone has the flag unset.
\<close>

theorem synthetic_arrivals_realtime_flag_witness:
  "list_all isRealtime (fst (generateMockArrivals downEnv station127 initialWorld))
   \<and> realtimeEntry None northArrival =
       realtimeEntry None (northArrival\<lparr>direction := None, isAssigned := Some True\<rparr>)
   \<and> isRealtime (realtimeEntry None northArrival)
   \<and> \<not> isRealtime (scheduledEntry scheduled6)
   \<and> mergeArrivals (realtimeArrivalsOf (\<lambda>tid. Inr None) [southArrival, northArrival])
        [scheduled6] 1700000000000 =
      [scheduledEntry scheduled6, realtimeEntry None southArrival, realtimeEntry None northArrival]"
proof -
  let ?synthetic = "northArrival\<lparr>direction := None, isAssigned := Some True\<rparr>"
  have agree: "arrival_id northArrival = arrival_id ?synthetic
      \<and> line northArrival = line ?synthetic
      \<and> destination northArrival = destination ?synthetic
      \<and> arrivalTime northArrival = arrivalTime ?synthetic
      \<and> delay northArrival = delay ?synthetic
      \<and> color northArrival = color ?synthetic
      \<and> trainId northArrival = trainId ?synthetic"
    by simp
  note inst = synthetic_arrivals_realtime_flag
      [of downEnv station127 initialWorld None northArrival northArrival ?synthetic
          "\<lambda>tid. Inr None" "[southArrival, northArrival]" "[scheduled6]" 1700000000000 scheduled6]
  have 1: "list_all isRealtime (fst (generateMockArrivals downEnv station127 initialWorld))"
    using inst unfolding list_all_iff by blast
  have 2: "realtimeEntry None northArrival = realtimeEntry None ?synthetic"
    using inst agree by blast
  have 3: "isRealtime (realtimeEntry None northArrival) \<and> \<not> isRealtime (scheduledEntry scheduled6)"
    using inst by blast
  show ?thesis using 1 2 3 merge_example by blast
qed

text \<open>
  A remark on C10: it is the route that makes the two kinds alike. In the list
  \<^verbatim>\<open>getTrainArrivals\<close> returns, a decoded arrival has a direction and a synthetic one has
  none; the route does not copy that property.
\<close>

lemma mockArrival_direction: "direction (fst (mockArrival e now l w)) = None"
  by (simp add: mockArrival_def Let_def case_prod_beta)

lemma mockArrivalsOfLine_direction:
  "\<forall>a \<in> set (fst (mockArrivalsOfLine e now l n w)). direction a = None"
  by (induction n arbitrary: w) (simp_all add: case_prod_beta Let_def mockArrival_direction)

lemma mockArrivalsOfLines_direction:
  "\<forall>a \<in> set (fst (mockArrivalsOfLines e now ls w)). direction a = None"
  by (induction ls arbitrary: w)
     (auto simp: case_prod_beta Let_def dest: mockArrivalsOfLine_direction [rule_format])

lemma direction_before_the_route:
  "(\<forall>a \<in> set (fst (generateMockArrivals e st w)). direction a = None)
   \<and> (processUpdate stationId now trp nyctTrip update = Inr pushed \<longrightarrow>
        (\<forall>a \<in> set pushed. direction a \<noteq> None))"
  using mockArrivalsOfLines_direction
  by (auto simp: generateMockArrivals_eq sortByArrivalTime_def processUpdate_def Let_def
      split: if_splits option.splits sum.splits)

end
